theory Spec2Isabelle
  imports Complex_Main "HOL-Library.Word" "HOL-Library.AList"
begin

section \<open>JavaScript values\<close>

text \<open>
  The classification module is TypeScript; at run time its results are plain JavaScript
  objects, and the result of the remote path is whatever \<open>response.json()\<close> produced.
  Values are therefore modelled as they are at run time. An object is an association
  list read with \<open>map_of\<close> and written with \<open>AList.update\<close> (a later property of an
  object literal replaces an earlier one of the same name).

  Numbers are IEEE doubles in the source. A double is modelled by the real number it
  denotes, and the comparisons of the source are exact on these. The arithmetic of the
  image analyzer and of the simulated classifier rounds every result to a double, as
  the source does (section on doubles below); the confidence adjustment is taken in
  exact arithmetic. NaN and the infinities do not arise on the paths modelled: the
  one division that could give NaN, the mean over an image without pixels, is preceded
  by an error of the canvas, which the model returns.
\<close>

datatype jsval =
    JUndefined
  | JNull
  | JBool bool
  | JNum real
  | JStr string
  | JArr "jsval list"
  | JObj "(string \<times> jsval) list"

text \<open>
  What a \<open>catch\<close> clause receives: a value that is \<open>instanceof Error\<close>, with its
  message, or any other thrown value.
\<close>

datatype thrown = Error string | NotAnError

text \<open>The decimal name of an array index, as a property key.\<close>

function indexKey :: "nat \<Rightarrow> string" where
  "indexKey n =
     (if n < 10 then [''0123456789'' ! n]
      else indexKey (n div 10) @ [''0123456789'' ! (n mod 10)])"
  by pat_completeness auto
termination
  by (relation "measure id") auto

text \<open>
  The own enumerable properties of a value, which is what the spread \<open>{...v}\<close> copies:
  the fields of an object, the indexed elements of an array or of a string, and nothing
  for \<open>undefined\<close>, \<open>null\<close>, a boolean or a number.
\<close>

fun ownProps :: "jsval \<Rightarrow> (string \<times> jsval) list" where
  "ownProps (JObj fs) = fs"
| "ownProps (JArr xs) = zip (map indexKey [0..<length xs]) xs"
| "ownProps (JStr s) = zip (map indexKey [0..<length s]) (map (\<lambda>c. JStr [c]) s)"
| "ownProps JUndefined = []"
| "ownProps JNull = []"
| "ownProps (JBool b) = []"
| "ownProps (JNum x) = []"

text \<open>The property \<open>k\<close> among the properties of an object: \<open>undefined\<close> when there is none.\<close>

definition field :: "(string \<times> jsval) list \<Rightarrow> string \<Rightarrow> jsval" where
  "field props k = (case map_of props k of None \<Rightarrow> JUndefined | Some x \<Rightarrow> x)"

text \<open>
  The property read \<open>v.k\<close>: a TypeError on \<open>undefined\<close> and \<open>null\<close> (an \<open>Error\<close> whose
  message is the engine's; its wording plays no role), the own property where there is
  one, \<open>undefined\<close> otherwise. (Inherited properties are not modelled; the source reads
  only \<open>details\<close> and \<open>type\<close> from a remote value.)
\<close>

fun getProp :: "jsval \<Rightarrow> string \<Rightarrow> thrown + jsval" where
  "getProp JUndefined k =
     Inl (Error (''Cannot read properties of undefined (reading '' @ k @ '')''))"
| "getProp JNull k =
     Inl (Error (''Cannot read properties of null (reading '' @ k @ '')''))"
| "getProp v k = Inr (field (ownProps v) k)"

text \<open>
  \<open>table[key]\<close> on an object literal of the module. The keys used are strings (the
  category of a prediction).
\<close>

fun index :: "(string \<times> jsval) list \<Rightarrow> jsval \<Rightarrow> jsval" where
  "index table (JStr k) = field table k"
| "index table v = JUndefined"

text \<open>Truthiness of an optional configuration string: set and not empty.\<close>

fun truthy :: "string option \<Rightarrow> bool" where
  "truthy None = False"
| "truthy (Some s) = (s \<noteq> [])"

section \<open>Doubles\<close>

text \<open>
  \<open>fl x\<close> is the double nearest to the real number \<open>x\<close>, the one with the even
  significand when two are equally near: the result of every addition, multiplication
  and division of doubles is \<open>fl\<close> of the exact result. \<open>expo x\<close> is the exponent of a
  positive \<open>x\<close> (the \<open>e\<close> with \<open>2^e \<le> x < 2^(e+1)\<close>), \<open>roundEven\<close> rounds to the nearest
  integer, a half to the even one, and \<open>roundTo p\<close> keeps \<open>p\<close> fraction bits; a double has
  52. The exponent is not bounded: the values that arise here are far from overflow and
  from the subnormal range (a typed array has fewer than \<open>2^53\<close> elements, so an image
  has fewer than \<open>2^51\<close> pixels). Integers below \<open>2^53\<close> are doubles, so the sums of
  bytes and the counts of the source are exact.
\<close>

fun log2n :: "nat \<Rightarrow> nat" where
  "log2n n = (if n < 2 then 0 else Suc (log2n (n div 2)))"

declare log2n.simps [simp del]

definition expo :: "real \<Rightarrow> int" where
  "expo x =
     (if 1 \<le> x then int (log2n (nat \<lfloor>x\<rfloor>))
      else - int (Suc (log2n (nat (\<lceil>1 / x\<rceil> - 1)))))"

definition roundEven :: "real \<Rightarrow> int" where
  "roundEven y =
     (let f = \<lfloor>y\<rfloor>; d = y - of_int f
      in if d < 1 / 2 then f
         else if 1 / 2 < d then f + 1
         else if even f then f else f + 1)"

definition roundTo :: "nat \<Rightarrow> real \<Rightarrow> real" where
  "roundTo p x =
     (if x = 0 then 0
      else let q = 2 powi (expo \<bar>x\<bar> - int p) in of_int (roundEven (x / q)) * q)"

definition fl :: "real \<Rightarrow> real" where
  "fl x = roundTo 52 x"

section \<open>Effects\<close>

text \<open>
  The calls that leave the module (library, network, storage, timer, console) and the
  settings of the loading state are recorded in a trace, in program order, so that "no
  request was made" and "the state was never set to error" are statements about the
  trace.
\<close>

datatype LoadingState = Idle | Loading | Loaded | ErrorState

datatype event =
    ImportTf
  | LoadLayersModel string
  | ModelSave string
  | TfSequential
  | ModelPredict
  | Fetch string "string option"
  | SetTimeout real
  | SetLoadingState LoadingState
  | ConsoleLog string
  | ConsoleWarn string
  | ConsoleError string

section \<open>Per-category lookups\<close>

text \<open>
  \<open>arr[Math.floor(Math.random() * arr.length)]\<close>, with the value \<open>u\<close> that
  \<open>Math.random()\<close> returned; an index outside the array reads \<open>undefined\<close>.
\<close>

definition pick :: "jsval list \<Rightarrow> real \<Rightarrow> jsval" where
  "pick arr u =
     (let i = \<lfloor>fl (u * real (length arr))\<rfloor>
      in if 0 \<le> i \<and> i < int (length arr) then arr ! nat i else JUndefined)"

definition getRecommendations :: "jsval \<Rightarrow> jsval" where
  "getRecommendations type =
     (if type = JStr ''biodegradable'' then
        JArr [JStr ''Compost in your garden or community compost bin'',
              JStr ''Remove any non-organic materials before composting'',
              JStr ''Consider setting up a home composting system'']
      else if type = JStr ''recyclable'' then
        JArr [JStr ''Clean the item before recycling'',
              JStr ''Check local recycling guidelines for this material'',
              JStr ''Take to your nearest recycling center'',
              JStr ''Consider reusing before recycling'']
      else if type = JStr ''hazardous'' then
        JArr [JStr ''Do not put in regular trash'',
              JStr ''Take to specialized hazardous waste facility'',
              JStr ''Check for manufacturer take-back programs'',
              JStr ''Store safely until proper disposal'']
      else JArr [])"

definition getSubCategory :: "jsval \<Rightarrow> real \<Rightarrow> jsval" where
  "getSubCategory type u =
     (if type = JStr ''biodegradable'' then
        pick [JStr ''Food waste'', JStr ''Garden waste'', JStr ''Paper products'',
              JStr ''Natural materials''] u
      else if type = JStr ''recyclable'' then
        pick [JStr ''Plastic container'', JStr ''Glass bottle'', JStr ''Metal can'',
              JStr ''Paper product''] u
      else if type = JStr ''hazardous'' then
        pick [JStr ''Electronic waste'', JStr ''Battery'', JStr ''Chemical container'',
              JStr ''Paint container''] u
      else JStr ''Unknown'')"

definition getMaterial :: "jsval \<Rightarrow> real \<Rightarrow> jsval" where
  "getMaterial type u =
     (if type = JStr ''biodegradable'' then
        pick [JStr ''Organic matter'', JStr ''Plant-based'', JStr ''Natural fiber'',
              JStr ''Biodegradable plastic''] u
      else if type = JStr ''recyclable'' then
        pick [JStr ''PET plastic'', JStr ''Aluminum'', JStr ''Glass'', JStr ''Cardboard'',
              JStr ''Steel''] u
      else if type = JStr ''hazardous'' then
        pick [JStr ''Lithium battery'', JStr ''Lead'', JStr ''Chemical compound'',
              JStr ''Electronic components''] u
      else JStr ''Unknown'')"

section \<open>Image quality analysis\<close>

datatype Quality = QGood | QFair | QPoor

datatype Lighting = LGood | LLow | LOverexposed

record ImageAnalysis =
  quality :: Quality
  clarity :: real
  lightingConditions :: Lighting
  objectDetectionCount :: nat

text \<open>
  \<open>ImageData.data\<close> is a flat array of bytes, four per pixel (red, green, blue, alpha).
  The model groups it by pixel: \<open>data[i]\<close>, \<open>data[i + 1]\<close>, \<open>data[i + 2]\<close> of the loop
  that steps by four are the first three components of a pixel, and \<open>data.length / 4\<close>
  is the number of pixels. An image is given by the pixels the canvas returns for it.
\<close>

type_synonym rgba = "8 word \<times> 8 word \<times> 8 word \<times> 8 word"

text \<open>
  The loop that accumulates \<open>brightness\<close>, from the value it has so far: the sum of the
  three bytes is exact, the division by 3 and the addition to \<open>brightness\<close> round.
\<close>

fun sumBrightness :: "real \<Rightarrow> rgba list \<Rightarrow> real" where
  "sumBrightness brightness [] = brightness"
| "sumBrightness brightness ((r, g, b, a) # rest) =
     sumBrightness
       (fl (brightness + fl ((real (unat r) + real (unat g) + real (unat b)) / 3))) rest"

text \<open>\<open>brightness /= data.length / 4\<close>, after the loop.\<close>

definition meanBrightness :: "rgba list \<Rightarrow> real" where
  "meanBrightness data = fl (sumBrightness 0 data / real (length data))"

definition qualityOf :: "real \<Rightarrow> Quality" where
  "qualityOf brightness =
     (if brightness > 100 \<and> brightness < 200 then QGood
      else if brightness > 50 then QFair
      else QPoor)"

definition lightingOf :: "real \<Rightarrow> Lighting" where
  "lightingOf brightness =
     (if brightness > 180 then LOverexposed
      else if brightness < 80 then LLow
      else LGood)"

text \<open>
  \<open>getImageData\<close> raises an IndexSizeError for a canvas of zero width or height, so the
  loop never runs on an empty array (where the division would give NaN).
\<close>

definition analyzeImageQuality :: "rgba list \<Rightarrow> thrown + ImageAnalysis" where
  "analyzeImageQuality data =
     (if data = [] then Inl (Error ''The source width is 0.'')
      else
        let brightness = meanBrightness data
        in Inr \<lparr> quality = qualityOf brightness,
                 clarity = min 100 (max 0 (fl (fl (brightness - 50) / 1.5))),
                 lightingConditions = lightingOf brightness,
                 objectDetectionCount = 1 \<rparr>)"

section \<open>Confidence adjustment\<close>

text \<open>
  Lines 612 to 619 of the source: the confidence reported for a raw confidence
  \<open>maxConfidence * 100\<close>, here \<open>raw\<close>. \<open>Math.round\<close> rounds a half upwards, as \<open>round\<close>
  does.
\<close>

definition adjustConfidence :: "real \<Rightarrow> ImageAnalysis \<Rightarrow> int" where
  "adjustConfidence raw imageAnalysis =
     (let adjustedConfidence = raw;
          adjustedConfidence =
            (if quality imageAnalysis = QPoor then adjustedConfidence * 0.8
             else adjustedConfidence);
          adjustedConfidence =
            (if lightingConditions imageAnalysis = LLow then adjustedConfidence * 0.9
             else adjustedConfidence)
      in round (min 99 adjustedConfidence))"

text \<open>
  The three scores of the model's output layer are \<open>biodegradable\<close>, \<open>recyclable\<close>,
  \<open>hazardous\<close>; \<open>uSub\<close> and \<open>uMat\<close> are the two values \<open>Math.random()\<close> returns in
  \<open>getSubCategory\<close> and \<open>getMaterial\<close>.
\<close>

definition processEnhancedPredictions ::
  "real \<times> real \<times> real \<Rightarrow> ImageAnalysis \<Rightarrow> real \<Rightarrow> real \<Rightarrow> (string \<times> jsval) list" where
  "processEnhancedPredictions data imageAnalysis uSub uMat =
     (case data of (biodegradable, recyclable, hazardous) \<Rightarrow>
        let maxConfidence = max (max biodegradable recyclable) hazardous;
            type = (if maxConfidence = biodegradable then JStr ''biodegradable''
                    else if maxConfidence = recyclable then JStr ''recyclable''
                    else JStr ''hazardous'')
        in [(''type'', type),
            (''confidence'',
               JNum (of_int (adjustConfidence (maxConfidence * 100) imageAnalysis))),
            (''details'',
               JObj [(''subCategory'', getSubCategory type uSub),
                     (''material'', getMaterial type uMat),
                     (''recommendations'', getRecommendations type)])])"

section \<open>Configuration and environment\<close>

text \<open>
  The object \<open>ml\<close> of \<open>./config\<close>, which is not part of the sources at hand: the three
  settings the module reads, each a string or unset.
\<close>

record MLConfig =
  tensorflowModelUrl :: "string option"
  apiEndpoint :: "string option"
  apiKey :: "string option"

datatype File = File (fileName: string) (fileType: string) (fileSize: nat)

record Response =
  ok :: bool
  statusText :: string
  json :: "thrown + jsval"

text \<open>The values \<open>Math.random()\<close> returns in \<open>mockClassification\<close>, in the order of the calls.\<close>

record MockDraws =
  uDelay :: real
  uType :: real
  uConfidence :: real
  uSubCategory :: real
  uMaterial :: real

text \<open>
  What the world answers. \<open>tfImport\<close> is the outcome of \<open>import("@tensorflow/tfjs")\<close>
  (\<open>None\<close> when it succeeds); \<open>loadLayersModel\<close> and \<open>modelSave\<close> are the library's calls
  of these names, by URL; \<open>sequential\<close> is the construction of the demo model; \<open>predict\<close>
  stands for preprocessing, \<open>model.predict\<close> and \<open>predictions.data()\<close> together and
  gives the three scores; \<open>fetch\<close> answers a POST by URL, Authorization header and
  file; \<open>elapsed\<close> is \<open>Date.now() - startTime\<close>; \<open>uSub\<close> and \<open>uMat\<close> are the values of
  \<open>Math.random()\<close> in \<open>processEnhancedPredictions\<close>. The type \<open>'m\<close> is that of a loaded
  model.
\<close>

record 'm Env =
  tfImport :: "thrown option"
  loadLayersModel :: "string \<Rightarrow> thrown + 'm"
  modelSave :: "'m \<Rightarrow> string \<Rightarrow> thrown option"
  sequential :: "thrown + 'm"
  predict :: "'m \<Rightarrow> rgba list \<Rightarrow> thrown + (real \<times> real \<times> real)"
  fetch :: "string \<Rightarrow> string option \<Rightarrow> File \<Rightarrow> thrown + Response"
  elapsed :: real
  uSub :: real
  uMat :: real
  mockDraws :: MockDraws

section \<open>Model lifecycle\<close>

text \<open>
  The interface \<open>MLModel\<close>. Its field \<open>loadingState\<close> is \<open>infoLoadingState\<close> here, and
  the \<open>accuracy\<close> of its training data \<open>trainingAccuracy\<close>, since the hook's state has a
  \<open>loadingState\<close> of its own.
\<close>

record TrainingData =
  samples :: nat
  trainingAccuracy :: real
  lastUpdated :: string

record MLModel =
  name :: string
  version :: string
  accuracy :: real
  supportedFormats :: "string list"
  infoLoadingState :: LoadingState
  modelSize :: "real option"
  trainingData :: "TrainingData option"
  offlineCapable :: bool

text \<open>The state of the hook \<open>useTensorFlowModel\<close>; \<open>tfError\<close> is its \<open>error\<close>.\<close>

record 'm TFState =
  model :: "'m option"
  loadingState :: LoadingState
  tfError :: "string option"
  modelInfo :: "MLModel option"
  isOfflineMode :: bool

definition initialTFState :: "'m TFState" where
  "initialTFState =
     \<lparr> model = None, loadingState = Idle, tfError = None, modelInfo = None,
       isOfflineMode = False \<rparr>"

definition isReady :: "'m TFState \<Rightarrow> bool" where
  "isReady st = (loadingState st = Loaded)"

definition modelKey :: string where
  "modelKey = ''ecosort-waste-classifier-v2''"

text \<open>The \<open>info\<close> objects of \<open>loadOfflineModel\<close>, of \<open>loadDemoModel\<close> and of \<open>loadModel\<close>.\<close>

definition offlineModelInfo :: MLModel where
  "offlineModelInfo =
     \<lparr> name = ''EcoSort Offline Classifier'', version = ''2.0.0'', accuracy = 92.1,
       supportedFormats = [''image/jpeg'', ''image/png'', ''image/webp''],
       infoLoadingState = Loaded, modelSize = None, trainingData = None,
       offlineCapable = True \<rparr>"

definition demoModelInfo :: MLModel where
  "demoModelInfo =
     \<lparr> name = ''EcoSort Demo Classifier'', version = ''1.0.0'', accuracy = 88.5,
       supportedFormats = [''image/jpeg'', ''image/png'', ''image/webp''],
       infoLoadingState = Loaded, modelSize = None, trainingData = None,
       offlineCapable = True \<rparr>"

definition remoteModelInfo :: MLModel where
  "remoteModelInfo =
     \<lparr> name = ''EcoSort Waste Classifier'', version = ''2.1.0'', accuracy = 94.2,
       supportedFormats = [''image/jpeg'', ''image/png'', ''image/webp''],
       infoLoadingState = Loaded, modelSize = Some 12.5,
       trainingData = Some \<lparr> samples = 100000, trainingAccuracy = 94.2,
                              lastUpdated = ''2024-01-15'' \<rparr>,
       offlineCapable = True \<rparr>"

definition loadOfflineModel :: "'m Env \<Rightarrow> ('m \<times> MLModel) option \<times> event list" where
  "loadOfflineModel tf =
     (case loadLayersModel tf (''indexeddb://'' @ modelKey) of
        Inr m \<Rightarrow> (Some (m, offlineModelInfo), [LoadLayersModel (''indexeddb://'' @ modelKey)])
      | Inl err \<Rightarrow> (None, [LoadLayersModel (''indexeddb://'' @ modelKey)]))"

text \<open>The first component is what \<open>cacheModelOffline\<close> throws to its caller, if anything.\<close>

definition cacheModelOffline :: "'m Env \<Rightarrow> 'm \<Rightarrow> thrown option \<times> event list" where
  "cacheModelOffline tf m =
     (case modelSave tf m (''indexeddb://'' @ modelKey) of
        None \<Rightarrow>
          (None, [ModelSave (''indexeddb://'' @ modelKey),
                  ConsoleLog ''Model cached for offline use''])
      | Some err \<Rightarrow>
          (None, [ModelSave (''indexeddb://'' @ modelKey),
                  ConsoleWarn ''Failed to cache model offline:'']))"

definition loadDemoModel :: "'m Env \<Rightarrow> (thrown + 'm \<times> MLModel) \<times> event list" where
  "loadDemoModel tf =
     (case sequential tf of
        Inl err \<Rightarrow> (Inl err, [TfSequential])
      | Inr m \<Rightarrow> (Inr (m, demoModelInfo), [TfSequential]))"

text \<open>
  The \<open>try\<close> block of \<open>loadModel\<close>: what it throws (if anything), the state it leaves and
  its trace.
\<close>

definition loadModelTry ::
  "MLConfig \<Rightarrow> 'm Env \<Rightarrow> 'm TFState \<Rightarrow> thrown option \<times> 'm TFState \<times> event list" where
  "loadModelTry cfg tf st =
     (case tfImport tf of
        Some err \<Rightarrow> (Some err, st, [ImportTf])
      | None \<Rightarrow>
          (case loadOfflineModel tf of
             (Some (m, info), ev) \<Rightarrow>
               (None,
                st\<lparr> model := Some m, modelInfo := Some info, isOfflineMode := True,
                    loadingState := Loaded \<rparr>,
                [ImportTf] @ ev @ [SetLoadingState Loaded])
           | (None, ev) \<Rightarrow>
               if truthy (tensorflowModelUrl cfg) then
                 (case tensorflowModelUrl cfg of
                    None \<Rightarrow> (None, st, [ImportTf] @ ev)
                  | Some url \<Rightarrow>
                      (case loadLayersModel tf url of
                         Inl err \<Rightarrow> (Some err, st, [ImportTf] @ ev @ [LoadLayersModel url])
                       | Inr loadedModel \<Rightarrow>
                           (case cacheModelOffline tf loadedModel of
                              (thrownBySave, ev') \<Rightarrow>
                                (thrownBySave,
                                 st\<lparr> model := Some loadedModel,
                                     modelInfo := Some remoteModelInfo,
                                     loadingState := Loaded \<rparr>,
                                 [ImportTf] @ ev
                                   @ [LoadLayersModel url, SetLoadingState Loaded] @ ev'))))
               else
                 (case loadDemoModel tf of
                    (Inl err, ev') \<Rightarrow> (Some err, st, [ImportTf] @ ev @ ev')
                  | (Inr (m, info), ev') \<Rightarrow>
                      (None,
                       st\<lparr> model := Some m, modelInfo := Some info, loadingState := Loaded \<rparr>,
                       [ImportTf] @ ev @ ev' @ [SetLoadingState Loaded]))))"

definition loadModel :: "MLConfig \<Rightarrow> 'm Env \<Rightarrow> 'm TFState \<Rightarrow> 'm TFState \<times> event list" where
  "loadModel cfg tf st =
     (case loadModelTry cfg tf (st\<lparr> loadingState := Loading \<rparr>) of
        (None, st', ev) \<Rightarrow> (st', SetLoadingState Loading # ev)
      | (Some err, st', ev) \<Rightarrow>
          (st'\<lparr> tfError :=
                   Some (case err of Error message \<Rightarrow> message
                         | NotAnError \<Rightarrow> ''Failed to load ML model''),
                loadingState := ErrorState \<rparr>,
           SetLoadingState Loading # ev
             @ [SetLoadingState ErrorState,
                ConsoleWarn
                  ''ML model loading failed, classification will use enhanced mock data'']))"

section \<open>Result enrichment tables\<close>

definition calculateEnvironmentalImpact :: "jsval \<Rightarrow> jsval" where
  "calculateEnvironmentalImpact type =
     index
       [(''biodegradable'',
           JObj [(''co2Saved'', JNum 2.3), (''energySaved'', JNum 15), (''waterSaved'', JNum 25)]),
        (''recyclable'',
           JObj [(''co2Saved'', JNum 4.7), (''energySaved'', JNum 35), (''waterSaved'', JNum 50)]),
        (''hazardous'',
           JObj [(''co2Saved'', JNum 1.2), (''energySaved'', JNum 8), (''waterSaved'', JNum 12)])]
       type"

definition getWasteReductionTips :: "jsval \<Rightarrow> jsval" where
  "getWasteReductionTips type =
     index
       [(''biodegradable'',
           JArr [JStr ''Start composting at home to reduce organic waste'',
                 JStr ''Buy only what you need to minimize food waste'',
                 JStr ''Use reusable containers instead of disposable ones'']),
        (''recyclable'',
           JArr [JStr ''Rinse containers before recycling'',
                 JStr ''Choose products with minimal packaging'',
                 JStr ''Reuse items before recycling them'']),
        (''hazardous'',
           JArr [JStr ''Buy rechargeable batteries instead of disposable ones'',
                 JStr ''Look for eco-friendly alternatives'',
                 JStr ''Participate in manufacturer take-back programs''])]
       type"

definition findNearestFacilities :: "jsval \<Rightarrow> jsval" where
  "findNearestFacilities type =
     index
       [(''biodegradable'', JArr [JStr ''Community Compost Center'', JStr ''Green Garden Hub'']),
        (''recyclable'', JArr [JStr ''City Recycling Center'', JStr ''EcoPoint Station'']),
        (''hazardous'',
           JArr [JStr ''Hazardous Waste Facility'', JStr ''Electronics Recycling Center''])]
       type"

definition getAlternativeDisposal :: "jsval \<Rightarrow> jsval" where
  "getAlternativeDisposal type =
     index
       [(''biodegradable'',
           JArr [JStr ''Home composting'', JStr ''Community garden donation'',
                 JStr ''Worm composting'']),
        (''recyclable'',
           JArr [JStr ''Upcycling projects'', JStr ''Donation to local schools'',
                 JStr ''DIY crafts'']),
        (''hazardous'',
           JArr [JStr ''Manufacturer take-back'', JStr ''Special collection events'',
                 JStr ''Electronics stores''])]
       type"

definition calculateCarbonFootprint :: "jsval \<Rightarrow> jsval" where
  "calculateCarbonFootprint type =
     index
       [(''biodegradable'', JNum 0.8), (''recyclable'', JNum 2.3), (''hazardous'', JNum 1.1)]
       type"

section \<open>On-device classification\<close>

text \<open>The report of the analyzer as the object it is at run time.\<close>

fun qualityName :: "Quality \<Rightarrow> string" where
  "qualityName QGood = ''good''"
| "qualityName QFair = ''fair''"
| "qualityName QPoor = ''poor''"

fun lightingName :: "Lighting \<Rightarrow> string" where
  "lightingName LGood = ''good''"
| "lightingName LLow = ''low''"
| "lightingName LOverexposed = ''overexposed''"

definition imageAnalysisObject :: "ImageAnalysis \<Rightarrow> jsval" where
  "imageAnalysisObject ia =
     JObj [(''quality'', JStr (qualityName (quality ia))),
           (''clarity'', JNum (clarity ia)),
           (''lightingConditions'', JStr (lightingName (lightingConditions ia))),
           (''objectDetectionCount'', JNum (real (objectDetectionCount ia)))]"

text \<open>The \<open>try\<close> block of \<open>classifyImage\<close>, for the loaded model \<open>m\<close>.\<close>

definition classifyImageTry :: "'m Env \<Rightarrow> 'm \<Rightarrow> rgba list \<Rightarrow> (thrown + jsval) \<times> event list" where
  "classifyImageTry tf m imageElement =
     (case tfImport tf of
        Some err \<Rightarrow> (Inl err, [ImportTf])
      | None \<Rightarrow>
          (case analyzeImageQuality imageElement of
             Inl err \<Rightarrow> (Inl err, [ImportTf])
           | Inr imageAnalysis \<Rightarrow>
               (case predict tf m imageElement of
                  Inl err \<Rightarrow> (Inl err, [ImportTf, ModelPredict])
                | Inr data \<Rightarrow>
                    let result = processEnhancedPredictions data imageAnalysis (uSub tf) (uMat tf);
                        type = field result ''type''
                    in (Inr (JObj
                          [(''type'', type),
                           (''confidence'', field result ''confidence''),
                           (''processingTime'', JNum (elapsed tf)),
                           (''imageAnalysis'', imageAnalysisObject imageAnalysis),
                           (''details'',
                              JObj (AList.update ''nearestFacilities'' (findNearestFacilities type)
                                     (AList.update ''wasteReductionTips'' (getWasteReductionTips type)
                                       (AList.update ''environmentalImpact''
                                          (calculateEnvironmentalImpact type)
                                          (ownProps (field result ''details'')))))),
                           (''alternativeDisposal'', getAlternativeDisposal type),
                           (''carbonFootprint'', calculateCarbonFootprint type)]),
                        [ImportTf, ModelPredict]))))"

definition classifyImage :: "'m Env \<Rightarrow> 'm TFState \<Rightarrow> rgba list \<Rightarrow> (thrown + jsval) \<times> event list" where
  "classifyImage tf st imageElement =
     (case model st of
        None \<Rightarrow> (Inl (Error ''Model not loaded''), [])
      | Some m \<Rightarrow>
          (case classifyImageTry tf m imageElement of
             (Inr r, ev) \<Rightarrow> (Inr r, ev)
           | (Inl err, ev) \<Rightarrow>
               (Inl (Error (''Classification failed: ''
                            @ (case err of Error message \<Rightarrow> message
                               | NotAnError \<Rightarrow> ''Unknown error''))),
                ev)))"

section \<open>Remote API classification\<close>

text \<open>The state of the hook \<open>useAPIClassification\<close>: its \<open>loading\<close> and \<open>error\<close>.\<close>

record APIState =
  apiLoading :: bool
  apiError :: "string option"

text \<open>
  The value of the header \<open>Authorization\<close>, which is sent when \<open>apiKey\<close> is set and not
  empty.
\<close>

definition authorizationHeader :: "MLConfig \<Rightarrow> string option" where
  "authorizationHeader cfg =
     (case apiKey cfg of
        None \<Rightarrow> None
      | Some k \<Rightarrow> if k = [] then None else Some (''Bearer '' @ k))"

text \<open>The \<open>try\<close> block of \<open>classifyImageViaAPI\<close>, for the endpoint \<open>url\<close>.\<close>

definition apiRequest ::
  "MLConfig \<Rightarrow> 'm Env \<Rightarrow> string \<Rightarrow> File \<Rightarrow> (thrown + jsval) \<times> event list" where
  "apiRequest cfg env url imageFile =
     (case fetch env url (authorizationHeader cfg) imageFile of
        Inl err \<Rightarrow> (Inl err, [Fetch url (authorizationHeader cfg)])
      | Inr response \<Rightarrow>
          if \<not> ok response then
            (Inl (Error (''API request failed: '' @ statusText response)),
             [Fetch url (authorizationHeader cfg)])
          else
            (case json response of
               Inl err \<Rightarrow> (Inl err, [Fetch url (authorizationHeader cfg)])
             | Inr result \<Rightarrow>
                 (case getProp result ''details'' of
                    Inl err \<Rightarrow> (Inl err, [Fetch url (authorizationHeader cfg)])
                  | Inr details \<Rightarrow>
                      (case getProp result ''type'' of
                         Inl err \<Rightarrow> (Inl err, [Fetch url (authorizationHeader cfg)])
                       | Inr type \<Rightarrow>
                           (Inr (JObj
                              (AList.update ''details''
                                 (JObj (AList.update ''recommendations''
                                          (getRecommendations type) (ownProps details)))
                                 (AList.update ''processingTime'' (JNum (elapsed env))
                                    (ownProps result)))),
                            [Fetch url (authorizationHeader cfg)])))))"

definition classifyImageViaAPI ::
  "MLConfig \<Rightarrow> 'm Env \<Rightarrow> APIState \<Rightarrow> File \<Rightarrow> (thrown + jsval) \<times> APIState \<times> event list" where
  "classifyImageViaAPI cfg env st imageFile =
     (if \<not> truthy (apiEndpoint cfg) then
        (Inl (Error ''ML API endpoint not configured''), st, [])
      else
        (case apiEndpoint cfg of
           None \<Rightarrow> (Inl (Error ''ML API endpoint not configured''), st, [])
         | Some url \<Rightarrow>
             (case apiRequest cfg env url imageFile of
                (Inr r, ev) \<Rightarrow> (Inr r, st\<lparr> apiLoading := False, apiError := None \<rparr>, ev)
              | (Inl err, ev) \<Rightarrow>
                  let errorMessage =
                        (case err of Error message \<Rightarrow> message
                         | NotAnError \<Rightarrow> ''Classification failed'')
                  in (Inl (Error errorMessage),
                      st\<lparr> apiLoading := False, apiError := Some errorMessage \<rparr>, ev))))"

section \<open>Simulated classification\<close>

text \<open>The result, and the trace with the delay given to \<open>setTimeout\<close>.\<close>

definition mockClassification :: "MockDraws \<Rightarrow> (thrown + jsval) \<times> event list" where
  "mockClassification d =
     (let types = [JStr ''biodegradable'', JStr ''recyclable'', JStr ''hazardous''];
          type = pick types (uType d);
          confidence = 85 + \<lfloor>fl (uConfidence d * 15)\<rfloor>
      in (Inr (JObj
            [(''type'', type),
             (''confidence'', JNum (of_int confidence)),
             (''processingTime'', JNum 600),
             (''details'',
                JObj [(''subCategory'', getSubCategory type (uSubCategory d)),
                      (''material'', getMaterial type (uMaterial d)),
                      (''recommendations'', getRecommendations type)])]),
          [SetTimeout (fl (350 + fl (uDelay d * 400)))]))"

section \<open>The orchestrator\<close>

datatype Input = FromFile File | FromImage "rgba list"

text \<open>The three hooks' states that \<open>classifyWaste\<close> reads and writes.\<close>

record 'm Hooks =
  tensorflowModel :: "'m TFState"
  apiClassification :: APIState
  loading :: bool

text \<open>
  The \<open>try\<close> block of \<open>classifyWaste\<close>: the outcome of the backend chosen, the state of
  the API hook afterwards and the trace. The two tests of the source, "model ready and
  the input is an image element" and "endpoint set and the input is a file", are taken
  by the kind of input first.
\<close>

definition classifyWasteTry ::
  "MLConfig \<Rightarrow> 'm Env \<Rightarrow> 'm Hooks \<Rightarrow> Input \<Rightarrow> (thrown + jsval) \<times> APIState \<times> event list" where
  "classifyWasteTry cfg env hooks input =
     (case input of
        FromImage imageElement \<Rightarrow>
          if isReady (tensorflowModel hooks) then
            (case classifyImage env (tensorflowModel hooks) imageElement of
               (r, ev) \<Rightarrow>
                 (r, apiClassification hooks,
                  ConsoleLog ''Using TensorFlow.js model for classification'' # ev))
          else
            (case mockClassification (mockDraws env) of
               (r, ev) \<Rightarrow>
                 (r, apiClassification hooks, ConsoleLog ''Using mock classification'' # ev))
      | FromFile imageFile \<Rightarrow>
          if truthy (apiEndpoint cfg) then
            (case classifyImageViaAPI cfg env (apiClassification hooks) imageFile of
               (r, st, ev) \<Rightarrow> (r, st, ConsoleLog ''Using API for classification'' # ev))
          else
            (case mockClassification (mockDraws env) of
               (r, ev) \<Rightarrow>
                 (r, apiClassification hooks, ConsoleLog ''Using mock classification'' # ev)))"

definition classifyWaste ::
  "MLConfig \<Rightarrow> 'm Env \<Rightarrow> 'm Hooks \<Rightarrow> Input \<Rightarrow> (thrown + jsval) \<times> 'm Hooks \<times> event list" where
  "classifyWaste cfg env hooks input =
     (case classifyWasteTry cfg env hooks input of
        (Inr r, st, ev) \<Rightarrow>
          (Inr r, hooks\<lparr> apiClassification := st, loading := False \<rparr>, ev)
      | (Inl err, st, ev) \<Rightarrow>
          (case mockClassification (mockDraws env) of
             (r, ev') \<Rightarrow>
               (r, hooks\<lparr> apiClassification := st, loading := False \<rparr>,
                ev @ [ConsoleError ''Classification error:''] @ ev')))"

section \<open>Sample inputs\<close>

text \<open>
  Concrete configurations and environments on which the properties below are evaluated.
  In \<open>sampleEnv\<close> nothing is cached offline, every model URL fails to load, saving and
  the demo model succeed, and the network is down; a model is a number.
\<close>

definition sampleDraws :: MockDraws where
  "sampleDraws =
     \<lparr> uDelay = 0.5, uType = 0.5, uConfidence = 0.5, uSubCategory = 0.5, uMaterial = 0.5 \<rparr>"

text \<open>
  Draws at the edge of the doubles: the greatest double below 1 for the delay and the
  confidence, and the double nearest to 2/3 (which lies below 2/3) for the category.
\<close>

definition edgeDraws :: MockDraws where
  "edgeDraws =
     \<lparr> uDelay = 1 - 1 / 2 ^ 53, uType = 6004799503160661 / 2 ^ 53,
       uConfidence = 1 - 1 / 2 ^ 53, uSubCategory = 0.5, uMaterial = 0.5 \<rparr>"

definition sampleEnv :: "nat Env" where
  "sampleEnv =
     \<lparr> tfImport = None,
       loadLayersModel = (\<lambda>url. Inl (Error ''Request to model URL failed'')),
       modelSave = (\<lambda>m url. None),
       sequential = Inr 0,
       predict = (\<lambda>m img. Inr (0.1, 0.7, 0.2)),
       fetch = (\<lambda>url auth f. Inl (Error ''Failed to fetch'')),
       elapsed = 120,
       uSub = 0.5,
       uMat = 0.5,
       mockDraws = sampleDraws \<rparr>"

definition noConfig :: MLConfig where
  "noConfig = \<lparr> tensorflowModelUrl = None, apiEndpoint = None, apiKey = None \<rparr>"

definition apiConfig :: MLConfig where
  "apiConfig =
     \<lparr> tensorflowModelUrl = None, apiEndpoint = Some ''https://api.example/classify'',
       apiKey = None \<rparr>"

definition remoteModelConfig :: MLConfig where
  "remoteModelConfig =
     \<lparr> tensorflowModelUrl = Some ''https://models.example/model.json'', apiEndpoint = None,
       apiKey = None \<rparr>"

definition sampleFile :: File where
  "sampleFile = File ''item.jpg'' ''image/jpeg'' 1000"

definition idleHooks :: "nat Hooks" where
  "idleHooks =
     \<lparr> tensorflowModel = initialTFState,
       apiClassification = \<lparr> apiLoading = False, apiError = None \<rparr>,
       loading = False \<rparr>"

text \<open>
  A remote answer that reports a hazardous item with confidence 100 and a recommendation
  text of its own, and an environment whose endpoint gives that answer.
\<close>

definition remoteBody :: jsval where
  "remoteBody =
     JObj [(''type'', JStr ''hazardous''),
           (''confidence'', JNum 100),
           (''details'',
              JObj [(''subCategory'', JStr ''Battery''),
                    (''recommendations'', JArr [JStr ''Put it in the regular trash''])])]"

definition remoteEnv :: "nat Env" where
  "remoteEnv =
     sampleEnv\<lparr> fetch := \<lambda>url auth f.
       Inr \<lparr> ok = True, statusText = ''OK'', json = Inr remoteBody \<rparr> \<rparr>"

section \<open>Properties of the rounding to doubles\<close>

lemma log2n_bounds: "0 < n \<Longrightarrow> 2 ^ log2n n \<le> n \<and> n < 2 ^ Suc (log2n n)"
proof (induction n rule: log2n.induct)
  case (1 n)
  show ?case
  proof (cases "n < 2")
    case True
    with "1.prems" have "n = 1" by simp
    then show ?thesis by (simp add: log2n.simps)
  next
    case False
    then have pos: "0 < n div 2" by simp
    from "1.IH" [OF False pos]
    have ih: "2 ^ log2n (n div 2) \<le> n div 2 \<and> n div 2 < 2 ^ Suc (log2n (n div 2))" .
    have eq: "log2n n = Suc (log2n (n div 2))" using False by (subst log2n.simps) simp
    from ih have "2 * 2 ^ log2n (n div 2) \<le> 2 * (n div 2)" by simp
    also have "\<dots> \<le> n" by simp
    finally have lo: "2 ^ log2n n \<le> n" by (simp add: eq)
    from ih have "n div 2 + 1 \<le> 2 ^ Suc (log2n (n div 2))" by simp
    then have "2 * (n div 2) + 2 \<le> 2 * 2 ^ Suc (log2n (n div 2))" by simp
    moreover have "n < 2 * (n div 2) + 2" by presburger
    ultimately have hi: "n < 2 ^ Suc (log2n n)" by (simp add: eq)
    from lo hi show ?thesis by simp
  qed
qed

lemma expo_bounds:
  assumes "0 < x"
  shows "2 powi expo x \<le> x \<and> x < 2 powi (expo x + 1)"
proof (cases "1 \<le> x")
  case True
  define n where "n = nat \<lfloor>x\<rfloor>"
  have n1: "0 < n" using True by (simp add: n_def)
  have nx: "real n \<le> x" using True by (simp add: n_def)
  have xn: "x < real n + 1" using True by (simp add: n_def)
  have e: "expo x = int (log2n n)" using True by (simp add: expo_def n_def)
  from log2n_bounds [OF n1] have b: "2 ^ log2n n \<le> n" "n + 1 \<le> 2 ^ Suc (log2n n)" by auto
  have "real (2 ^ log2n n) \<le> real n" using b(1) by (rule of_nat_mono)
  then have "(2::real) ^ log2n n \<le> real n" by simp
  then have "(2::real) ^ log2n n \<le> x" using nx by linarith
  then have lo: "2 powi expo x \<le> x" by (simp add: e)
  have "real (n + 1) \<le> real (2 ^ Suc (log2n n))" using b(2) by (rule of_nat_mono)
  then have "real n + 1 \<le> (2::real) ^ Suc (log2n n)" by simp
  then have "x < 2 ^ Suc (log2n n)" using xn by linarith
  moreover have "2 powi (expo x + 1) = (2::real) ^ Suc (log2n n)"
    by (simp add: e power_int_add)
  ultimately show ?thesis using lo by simp
next
  case False
  then have x1: "x < 1" by simp
  define y where "y = 1 / x"
  have y1: "1 < y" using assms x1 by (simp add: y_def)
  define n where "n = nat (\<lceil>y\<rceil> - 1)"
  have c2: "2 \<le> \<lceil>y\<rceil>" using y1 by linarith
  then have n1: "0 < n" by (simp add: n_def)
  have rn: "real n = of_int \<lceil>y\<rceil> - 1" using c2 by (simp add: n_def)
  have ny: "real n < y" using rn by linarith
  have yn: "y \<le> real n + 1" using rn by linarith
  define k where "k = Suc (log2n n)"
  have e: "expo x = - int k" using False by (simp add: expo_def n_def y_def k_def)
  from log2n_bounds [OF n1] have b: "2 ^ log2n n \<le> n" "n + 1 \<le> 2 ^ k" by (auto simp: k_def)
  have "real (2 ^ log2n n) \<le> real n" using b(1) by (rule of_nat_mono)
  then have b1: "(2::real) ^ log2n n \<le> real n" by simp
  have "real (n + 1) \<le> real (2 ^ k)" using b(2) by (rule of_nat_mono)
  then have b2: "real n + 1 \<le> (2::real) ^ k" by simp
  have xy: "x = 1 / y" using assms by (simp add: y_def)
  have "y \<le> 2 ^ k" using yn b2 by linarith
  then have "1 / 2 ^ k \<le> 1 / y" using y1 by (intro divide_left_mono) auto
  moreover have "2 powi expo x = 1 / (2::real) ^ k" by (simp add: e power_int_minus_divide)
  ultimately have lo: "2 powi expo x \<le> x" using xy by simp
  have "2 ^ log2n n < y" using b1 ny by linarith
  then have "1 / y < 1 / 2 ^ log2n n" using y1 by (intro divide_strict_left_mono) auto
  moreover have "2 powi (expo x + 1) = 1 / (2::real) ^ log2n n"
  proof -
    have "expo x + 1 = - int (log2n n)" by (simp add: e k_def)
    then show ?thesis by (simp add: power_int_minus_divide)
  qed
  ultimately have hi: "x < 2 powi (expo x + 1)" using xy by simp
  from lo hi show ?thesis by simp
qed

lemma expo_unique:
  assumes "2 powi e \<le> x" and "x < 2 powi (e + 1)"
  shows "expo x = e"
proof -
  have pos: "0 < x" using assms(1) zero_less_power_int [of "2::real" e] by linarith
  from expo_bounds [OF pos] have b: "2 powi expo x \<le> x" "x < 2 powi (expo x + 1)" by auto
  have "(2::real) powi e < 2 powi (expo x + 1)" using assms(1) b(2) by linarith
  then have 1: "e < expo x + 1"
    using power_int_increasing [of "expo x + 1" e "2::real"] by (cases "e < expo x + 1") auto
  have "(2::real) powi expo x < 2 powi (e + 1)" using assms(2) b(1) by linarith
  then have 2: "expo x < e + 1"
    using power_int_increasing [of "e + 1" "expo x" "2::real"] by (cases "expo x < e + 1") auto
  from 1 2 show ?thesis by simp
qed

lemma roundEven_of_int: "roundEven (of_int n) = n"
  by (simp add: roundEven_def)

lemma roundEven_bounds: "y - 1 / 2 \<le> of_int (roundEven y) \<and> of_int (roundEven y) \<le> y + 1 / 2"
proof -
  define f where "f = \<lfloor>y\<rfloor>"
  have f1: "of_int f \<le> y" and f2: "y < of_int f + 1" unfolding f_def by linarith+
  have r: "roundEven y =
             (if y - of_int f < 1 / 2 then f
              else if 1 / 2 < y - of_int f then f + 1
              else if even f then f else f + 1)"
    by (simp add: roundEven_def Let_def f_def)
  show ?thesis
  proof (cases "y - of_int f < 1 / 2")
    case True
    with r have "roundEven y = f" by simp
    with f1 True show ?thesis by simp
  next
    case False
    then have ge: "1 / 2 \<le> y - of_int f" by simp
    have "roundEven y = f \<or> roundEven y = f + 1" unfolding r by auto
    then show ?thesis
    proof
      assume e: "roundEven y = f"
      with r False have "\<not> 1 / 2 < y - of_int f" by (auto split: if_splits)
      with ge have "y - of_int f = 1 / 2" by simp
      with e show ?thesis by simp
    next
      assume "roundEven y = f + 1"
      with ge f2 show ?thesis by simp
    qed
  qed
qed

lemma roundEven_mono:
  assumes "x \<le> y"
  shows "roundEven x \<le> roundEven y"
proof (rule ccontr)
  assume "\<not> roundEven x \<le> roundEven y"
  then have gt: "roundEven y + 1 \<le> roundEven x" by simp
  then have "(of_int (roundEven y + 1) :: real) \<le> of_int (roundEven x)"
    by (simp only: of_int_le_iff)
  then have "(of_int (roundEven y) :: real) + 1 \<le> of_int (roundEven x)" by simp
  with roundEven_bounds [of x] roundEven_bounds [of y] assms have "x = y" by linarith
  with gt show False by simp
qed

lemma roundEven_half:
  assumes "even N"
  shows "roundEven (of_int N - 1 / 2) = N"
proof -
  have f: "\<lfloor>(of_int N :: real) - 1 / 2\<rfloor> = N - 1" by (rule floor_unique) simp_all
  have o: "odd (N - 1)" using assms by simp
  have d: "(of_int N :: real) - 1 / 2 - of_int (N - 1) = 1 / 2" by simp
  show ?thesis unfolding roundEven_def Let_def f d using o by simp
qed

lemma roundEven_less_iff:
  assumes "even N"
  shows "roundEven y < N \<longleftrightarrow> y < of_int N - 1 / 2"
proof
  assume "y < of_int N - 1 / 2"
  with roundEven_bounds [of y] have "(of_int (roundEven y) :: real) < of_int N" by linarith
  then show "roundEven y < N" by (simp only: of_int_less_iff)
next
  assume lt: "roundEven y < N"
  show "y < of_int N - 1 / 2"
  proof (rule ccontr)
    assume "\<not> y < of_int N - 1 / 2"
    then have ge: "of_int N - 1 / 2 \<le> y" by simp
    from roundEven_mono [OF ge] have "N \<le> roundEven y" by (simp add: roundEven_half [OF assms])
    with lt show False by simp
  qed
qed

lemma roundTo_zero: "roundTo p 0 = 0"
  by (simp add: roundTo_def)

lemma roundTo_binade:
  assumes "2 powi e \<le> \<bar>x\<bar>" and "\<bar>x\<bar> < 2 powi (e + 1)"
  shows "roundTo p x = of_int (roundEven (x / 2 powi (e - int p))) * 2 powi (e - int p)"
proof -
  have "0 < \<bar>x\<bar>" using assms(1) zero_less_power_int [of "2::real" e] by linarith
  then have nz: "x \<noteq> 0" by simp
  have "expo \<bar>x\<bar> = e" using assms by (rule expo_unique)
  with nz show ?thesis by (simp add: roundTo_def Let_def)
qed

lemma pow2_diff: "(2::real) powi (int m - int k) = 2 ^ m / 2 ^ k"
  by (simp add: power_int_diff)

lemma pow2_mult: "(2::real) ^ m * 2 powi (e - int m) = 2 powi e"
proof -
  have "(2::real) powi e = 2 powi (int m + (e - int m))" by simp
  also have "\<dots> = 2 powi int m * 2 powi (e - int m)" by (rule power_int_add) simp
  finally show ?thesis by simp
qed

lemma roundTo_scaled:
  assumes "2 ^ p \<le> \<bar>x\<bar> * 2 ^ k" and "\<bar>x\<bar> * 2 ^ k < 2 ^ Suc p"
  shows "roundTo p x = of_int (roundEven (x * 2 ^ k)) / 2 ^ k"
proof -
  have pk: "(0::real) < 2 ^ k" by simp
  have a: "2 powi (int p - int k) \<le> \<bar>x\<bar>"
    using assms(1) pk by (simp add: pow2_diff pos_divide_le_eq)
  have "int p - int k + 1 = int (Suc p) - int k" by simp
  then have "(2::real) powi (int p - int k + 1) = 2 ^ Suc p / 2 ^ k"
    by (simp only: pow2_diff)
  then have b: "\<bar>x\<bar> < 2 powi (int p - int k + 1)"
    using assms(2) pk by (simp add: pos_less_divide_eq)
  have "(2::real) powi (int p - int k - int p) = 2 powi (- int k)" by simp
  also have "\<dots> = 1 / 2 ^ k" by (simp add: power_int_minus_divide)
  finally have q: "(2::real) powi (int p - int k - int p) = 1 / 2 ^ k" .
  from roundTo_binade [OF a b, of p] show ?thesis by (simp only: q) simp
qed

lemma roundTo_exact:
  assumes "2 ^ p \<le> \<bar>x\<bar> * 2 ^ k" and "\<bar>x\<bar> * 2 ^ k < 2 ^ Suc p" and "x * 2 ^ k = of_int j"
  shows "roundTo p x = x"
proof -
  have "roundTo p x = of_int (roundEven (of_int j)) / 2 ^ k"
    using roundTo_scaled [OF assms(1,2)] by (simp only: assms(3))
  also have "\<dots> = of_int j / 2 ^ k" by (simp only: roundEven_of_int)
  also have "\<dots> = x" using assms(3) by (simp add: field_simps)
  finally show ?thesis .
qed

lemma roundTo_pow2: "roundTo p (2 powi e) = 2 powi e"
proof -
  have a: "2 powi e \<le> \<bar>(2::real) powi e\<bar>" by simp
  have b: "\<bar>(2::real) powi e\<bar> < 2 powi (e + 1)"
    by (simp add: power_int_strict_increasing)
  have "(2::real) powi e / 2 powi (e - int p) = 2 powi (e - (e - int p))"
    by (simp add: power_int_diff)
  also have "\<dots> = of_int (2 ^ p)" by simp
  finally have c: "(2::real) powi e / 2 powi (e - int p) = of_int (2 ^ p)" .
  have "roundTo p (2 powi e) = of_int (roundEven (of_int (2 ^ p))) * 2 powi (e - int p)"
    using roundTo_binade [OF a b, of p] by (simp only: c)
  also have "\<dots> = 2 ^ p * 2 powi (e - int p)" by (simp only: roundEven_of_int) simp
  also have "\<dots> = 2 powi e" by (rule pow2_mult)
  finally show ?thesis .
qed

lemma roundTo_nonneg:
  assumes "0 \<le> x"
  shows "0 \<le> roundTo p x"
proof (cases "x = 0")
  case True
  then show ?thesis by (simp add: roundTo_zero)
next
  case False
  define q :: real where "q = 2 powi (expo \<bar>x\<bar> - int p)"
  have q: "0 < q" by (simp add: q_def)
  have "0 \<le> x / q" using assms q by simp
  then have "roundEven (of_int 0) \<le> roundEven (x / q)" by (intro roundEven_mono) simp
  then have "0 \<le> roundEven (x / q)" by (simp only: roundEven_of_int)
  then have "0 \<le> of_int (roundEven (x / q)) * q" using q by simp
  then show ?thesis using False by (simp add: roundTo_def Let_def q_def)
qed

lemma roundTo_binade_range:
  assumes "2 powi e \<le> x" and "x < 2 powi (e + 1)"
  shows "2 powi e \<le> roundTo p x \<and> roundTo p x \<le> 2 powi (e + 1)"
proof -
  define q :: real where "q = 2 powi (e - int p)"
  have q: "0 < q" by (simp add: q_def)
  have xpos: "0 < x" using assms(1) zero_less_power_int [of "2::real" e] by linarith
  have f: "roundTo p x = of_int (roundEven (x / q)) * q"
    using roundTo_binade [of e x p] assms xpos by (simp add: q_def)
  have e52: "(2::real) powi e = 2 ^ p * q" unfolding q_def by (rule pow2_mult [symmetric])
  have "e - int p = e + 1 - int (Suc p)" by simp
  then have "q = 2 powi (e + 1 - int (Suc p))" by (simp only: q_def)
  then have e53: "(2::real) powi (e + 1) = 2 ^ Suc p * q" by (simp only: pow2_mult)
  have lo: "of_int (2 ^ p) \<le> x / q" using assms(1) q by (simp add: e52 pos_le_divide_eq)
  have hi: "x / q \<le> of_int (2 ^ Suc p)"
    using assms(2) q unfolding e53 by (simp add: pos_divide_le_eq)
  from roundEven_mono [OF lo] have "2 ^ p \<le> roundEven (x / q)" by (simp only: roundEven_of_int)
  then have "(of_int (2 ^ p) :: real) \<le> of_int (roundEven (x / q))" by (simp only: of_int_le_iff)
  then have a: "2 ^ p * q \<le> of_int (roundEven (x / q)) * q" using q by simp
  from roundEven_mono [OF hi] have "roundEven (x / q) \<le> 2 ^ Suc p"
    by (simp only: roundEven_of_int)
  then have "(of_int (roundEven (x / q)) :: real) \<le> of_int (2 ^ Suc p)"
    by (simp only: of_int_le_iff)
  then have b: "of_int (roundEven (x / q)) * q \<le> 2 ^ Suc p * q" using q by simp
  from a b show ?thesis unfolding f e52 e53 by simp
qed

lemma roundTo_mono:
  assumes "0 \<le> x" and "x \<le> y"
  shows "roundTo p x \<le> roundTo p y"
proof (cases "x = 0")
  case True
  then show ?thesis using roundTo_nonneg [of y p] assms by (simp add: roundTo_zero)
next
  case False
  then have xpos: "0 < x" and ypos: "0 < y" using assms by auto
  from expo_bounds [OF xpos] have bx: "2 powi expo x \<le> x" "x < 2 powi (expo x + 1)" by auto
  from expo_bounds [OF ypos] have by': "2 powi expo y \<le> y" "y < 2 powi (expo y + 1)" by auto
  have "(2::real) powi expo x < 2 powi (expo y + 1)" using bx(1) by'(2) assms(2) by linarith
  then have le: "expo x \<le> expo y"
    using power_int_increasing [of "expo y + 1" "expo x" "2::real"]
    by (cases "expo x < expo y + 1") auto
  show ?thesis
  proof (cases "expo x = expo y")
    case True
    define q :: real where "q = 2 powi (expo y - int p)"
    have q: "0 < q" by (simp add: q_def)
    have fx: "roundTo p x = of_int (roundEven (x / q)) * q"
      using roundTo_binade [of "expo x" x p] bx xpos by (simp add: q_def True)
    have fy: "roundTo p y = of_int (roundEven (y / q)) * q"
      using roundTo_binade [of "expo y" y p] by' ypos by (simp add: q_def)
    have "x / q \<le> y / q" using assms(2) q by (simp add: divide_right_mono)
    then have "roundEven (x / q) \<le> roundEven (y / q)" by (rule roundEven_mono)
    then have "(of_int (roundEven (x / q)) :: real) \<le> of_int (roundEven (y / q))"
      by (simp only: of_int_le_iff)
    then show ?thesis using q by (simp add: fx fy)
  next
    case False
    with le have "expo x + 1 \<le> expo y" by simp
    then have "(2::real) powi (expo x + 1) \<le> 2 powi expo y"
      by (intro power_int_increasing) simp_all
    with roundTo_binade_range [OF bx, of p] roundTo_binade_range [OF by', of p]
    show ?thesis by linarith
  qed
qed

lemma roundTo_less_iff:
  assumes "even N" and "2 ^ p < N" and "N \<le> 2 ^ Suc p" and "0 \<le> x"
  shows "roundTo p x < of_int N / 2 ^ k \<longleftrightarrow> x < (of_int N - 1 / 2) / 2 ^ k"
proof -
  have pk: "(0::real) < 2 ^ k" by simp
  have Nlo: "(2::real) ^ p + 1 \<le> of_int N"
  proof -
    have "2 ^ p + 1 \<le> N" using assms(2) by simp
    then have "(of_int (2 ^ p + 1) :: real) \<le> of_int N" by (simp only: of_int_le_iff)
    then show ?thesis by simp
  qed
  have Nhi: "of_int N \<le> (2::real) ^ Suc p"
  proof -
    have "(of_int N :: real) \<le> of_int (2 ^ Suc p)" using assms(3) by (simp only: of_int_le_iff)
    then show ?thesis by simp
  qed
  have lowpow: "roundTo p (2 ^ p / 2 ^ k) = (2::real) ^ p / 2 ^ k"
    using roundTo_pow2 [of p "int p - int k"] by (simp only: pow2_diff)
  have highpow: "roundTo p (2 ^ Suc p / 2 ^ k) = (2::real) ^ Suc p / 2 ^ k"
    using roundTo_pow2 [of p "int (Suc p) - int k"] by (simp only: pow2_diff)
  show ?thesis
  proof (cases "x * 2 ^ k < 2 ^ p")
    case True
    then have "x \<le> 2 ^ p / 2 ^ k" using pk by (simp add: pos_le_divide_eq)
    from roundTo_mono [OF assms(4) this, of p] have "roundTo p x \<le> 2 ^ p / 2 ^ k"
      by (simp only: lowpow)
    moreover have "(2::real) ^ p / 2 ^ k < of_int N / 2 ^ k"
    proof -
      have "(2::real) ^ p < of_int N" using Nlo by linarith
      then show ?thesis using pk by (rule divide_strict_right_mono)
    qed
    ultimately have l: "roundTo p x < of_int N / 2 ^ k" by linarith
    have "x * 2 ^ k < of_int N - 1 / 2" using True Nlo by linarith
    then have r: "x < (of_int N - 1 / 2) / 2 ^ k" using pk by (simp add: pos_less_divide_eq)
    from l r show ?thesis by simp
  next
    case False
    then have lo: "2 ^ p \<le> x * 2 ^ k" by simp
    show ?thesis
    proof (cases "x * 2 ^ k < 2 ^ Suc p")
      case True
      have ax: "\<bar>x\<bar> = x" using assms(4) by simp
      have f: "roundTo p x = of_int (roundEven (x * 2 ^ k)) / 2 ^ k"
        using roundTo_scaled [of p x k] lo True by (simp only: ax)
      have "roundTo p x < of_int N / 2 ^ k
              \<longleftrightarrow> (of_int (roundEven (x * 2 ^ k)) :: real) < of_int N"
        unfolding f using pk by (simp add: divide_less_cancel)
      also have "\<dots> \<longleftrightarrow> roundEven (x * 2 ^ k) < N" by (simp only: of_int_less_iff)
      also have "\<dots> \<longleftrightarrow> x * 2 ^ k < of_int N - 1 / 2" by (rule roundEven_less_iff [OF assms(1)])
      also have "\<dots> \<longleftrightarrow> x < (of_int N - 1 / 2) / 2 ^ k" using pk by (simp add: pos_less_divide_eq)
      finally show ?thesis .
    next
      case False
      then have ge: "2 ^ Suc p / 2 ^ k \<le> x" using pk by (simp add: pos_divide_le_eq)
      have "0 \<le> (2::real) ^ Suc p / 2 ^ k" by simp
      from roundTo_mono [OF this ge, of p] have "2 ^ Suc p / 2 ^ k \<le> roundTo p x"
        by (simp only: highpow)
      moreover have "of_int N / 2 ^ k \<le> (2::real) ^ Suc p / 2 ^ k"
        using Nhi by (rule divide_right_mono) simp
      ultimately have l: "\<not> roundTo p x < of_int N / 2 ^ k" by linarith
      have "of_int N - 1 / 2 \<le> x * 2 ^ k" using False Nhi by linarith
      then have r: "\<not> x < (of_int N - 1 / 2) / 2 ^ k" using pk by (simp add: pos_less_divide_eq)
      from l r show ?thesis by simp
    qed
  qed
qed

lemma roundTo_nat:
  assumes "m < 2 ^ Suc p"
  shows "roundTo p (real m) = real m"
proof (cases "m = 0")
  case True
  then show ?thesis by (simp add: roundTo_zero)
next
  case False
  then have pos: "0 < real m" by simp
  define e where "e = expo (real m)"
  from expo_bounds [OF pos] have b: "2 powi e \<le> real m" "real m < 2 powi (e + 1)"
    by (auto simp: e_def)
  have "real m < 2 ^ Suc p"
  proof -
    have "real m < real (2 ^ Suc p)" using assms by (simp only: of_nat_less_iff)
    then show ?thesis by simp
  qed
  moreover have "(2::real) powi int (Suc p) = 2 ^ Suc p" by (rule power_int_of_nat)
  ultimately have "(2::real) powi e < 2 powi int (Suc p)" using b(1) by linarith
  then have ehi: "e \<le> int p"
    using power_int_increasing [of "int (Suc p)" e "2::real"]
    by (cases "e < int (Suc p)") auto
  have "1 \<le> real m" using False by simp
  then have "(2::real) powi 0 < 2 powi (e + 1)" using b(2) by simp
  then have elo: "0 \<le> e"
    using power_int_increasing [of "e + 1" 0 "2::real"] by (cases "0 < e + 1") auto
  define k where "k = nat (int p - e)"
  have ke: "e = int p - int k" using ehi by (simp add: k_def)
  have pk: "(0::real) < 2 ^ k" by simp
  have lo: "2 ^ p \<le> \<bar>real m\<bar> * 2 ^ k"
    using b(1) pk unfolding ke pow2_diff by (simp add: pos_divide_le_eq)
  have "e + 1 = int (Suc p) - int k" using ke by simp
  then have "real m < 2 ^ Suc p / 2 ^ k" using b(2) by (simp only: pow2_diff)
  then have hi: "\<bar>real m\<bar> * 2 ^ k < 2 ^ Suc p" using pk by (simp add: pos_less_divide_eq)
  have i: "real m * 2 ^ k = of_int (int m * 2 ^ k)" by simp
  from roundTo_exact [OF lo hi i] show ?thesis .
qed

lemma roundTo_below_one:
  assumes "roundTo p u = u" and "u < 1"
  shows "u \<le> 1 - 1 / 2 ^ Suc p"
proof (rule ccontr)
  assume "\<not> u \<le> 1 - 1 / 2 ^ Suc p"
  then have gt: "1 - 1 / 2 ^ Suc p < u" by simp
  have pk: "(0::real) < 2 ^ Suc p" by simp
  have "(1 - 1 / 2 ^ Suc p) * 2 ^ Suc p < u * 2 ^ Suc p"
    using gt pk by (rule mult_strict_right_mono)
  then have lo1: "2 ^ Suc p - 1 < u * 2 ^ Suc p" by (simp add: algebra_simps)
  have hi: "u * 2 ^ Suc p < 2 ^ Suc p" using assms(2) pk by simp
  have one: "(1::real) \<le> 2 ^ p" by simp
  have suc: "(2::real) ^ Suc p = 2 * 2 ^ p" by simp
  have lo: "2 ^ p \<le> u * 2 ^ Suc p" using lo1 one unfolding suc by linarith
  have upos: "0 \<le> u"
  proof -
    have "(1::real) \<le> 2 ^ Suc p" using one unfolding suc by linarith
    then have "1 / 2 ^ Suc p \<le> (1::real)" using pk by (simp only: pos_divide_le_eq)
    with gt show ?thesis by linarith
  qed
  then have ax: "\<bar>u\<bar> = u" by simp
  define r where "r = roundEven (u * 2 ^ Suc p)"
  have "roundTo p u = of_int r / 2 ^ Suc p"
    using roundTo_scaled [of p u "Suc p"] lo hi unfolding ax r_def by simp
  then have ur: "u * 2 ^ Suc p = of_int r" using assms(1) by (simp add: field_simps)
  have "(of_int (2 ^ Suc p - 1) :: real) = 2 ^ Suc p - 1" by simp
  with lo1 have "(of_int (2 ^ Suc p - 1) :: real) < of_int r" unfolding ur by linarith
  then have r1: "2 ^ Suc p - 1 < r" by (simp only: of_int_less_iff)
  have "(of_int (2 ^ Suc p) :: real) = 2 ^ Suc p" by simp
  with hi have "(of_int r :: real) < of_int (2 ^ Suc p)" unfolding ur by linarith
  then have r2: "r < 2 ^ Suc p" by (simp only: of_int_less_iff)
  from r1 r2 show False by simp
qed

text \<open>The same facts for doubles.\<close>

lemma fl_zero: "fl 0 = 0"
  by (simp add: fl_def roundTo_zero)

lemma fl_nonneg: "0 \<le> x \<Longrightarrow> 0 \<le> fl x"
  by (simp add: fl_def roundTo_nonneg)

lemma fl_mono: "0 \<le> x \<Longrightarrow> x \<le> y \<Longrightarrow> fl x \<le> fl y"
  by (simp add: fl_def roundTo_mono)

lemma fl_nat: "m < 2 ^ 53 \<Longrightarrow> fl (real m) = real m"
  unfolding fl_def by (rule roundTo_nat) simp

lemma fl_scaled:
  assumes "2 ^ 52 \<le> \<bar>x\<bar> * 2 ^ k" and "\<bar>x\<bar> * 2 ^ k < 2 ^ 53"
  shows "fl x = of_int (roundEven (x * 2 ^ k)) / 2 ^ k"
  unfolding fl_def using assms by (intro roundTo_scaled) simp_all

lemma fl_less_iff:
  assumes "even N" and "2 ^ 52 < N" and "N \<le> 2 ^ 53" and "0 \<le> x"
  shows "fl x < of_int N / 2 ^ k \<longleftrightarrow> x < (of_int N - 1 / 2) / 2 ^ k"
  unfolding fl_def using assms by (intro roundTo_less_iff) simp_all

lemma fl_below_one:
  assumes "fl u = u" and "u < 1"
  shows "u \<le> 1 - 1 / 2 ^ 53"
  using roundTo_below_one [of 52 u] assms by (simp add: fl_def)

section \<open>Properties of the image quality analyzer\<close>

lemma unat_byte_le: "real (unat (w :: 8 word)) \<le> 255"
proof -
  have "unat w < 2 ^ 8" using unsigned_less [of w] by simp
  then have "unat w \<le> 255" by simp
  then show ?thesis by (simp del: of_nat_unat)
qed

lemma pixelBrightness_range:
  "0 \<le> fl ((real (unat (r :: 8 word)) + real (unat (g :: 8 word)) + real (unat (b :: 8 word))) / 3)
   \<and> fl ((real (unat r) + real (unat g) + real (unat b)) / 3) \<le> 255"
proof -
  let ?t = "(real (unat r) + real (unat g) + real (unat b)) / 3"
  have lo: "0 \<le> ?t" by (simp del: of_nat_unat)
  have hi: "?t \<le> 255"
    using unat_byte_le [of r] unat_byte_le [of g] unat_byte_le [of b]
    by (simp del: of_nat_unat)
  have "fl 255 = 255" using fl_nat [of 255] by simp
  with fl_mono [OF lo hi] fl_nonneg [OF lo] show ?thesis by simp
qed

lemma sumBrightness_nonneg: "0 \<le> acc \<Longrightarrow> 0 \<le> sumBrightness acc data"
proof (induction data arbitrary: acc)
  case Nil
  then show ?case by simp
next
  case (Cons p data)
  obtain r g b a where p: "p = (r, g, b, a)" by (cases p) auto
  let ?t = "fl ((real (unat r) + real (unat g) + real (unat b)) / 3)"
  have "0 \<le> acc + ?t" using Cons.prems pixelBrightness_range [of r g b] by linarith
  then have "0 \<le> fl (acc + ?t)" by (rule fl_nonneg)
  then have "0 \<le> sumBrightness (fl (acc + ?t)) data" by (rule Cons.IH)
  then show ?case by (simp add: p del: of_nat_unat)
qed

lemma sumBrightness_upper:
  assumes "0 \<le> acc" and "acc \<le> 255 * real j" and "j + length data \<le> 2 ^ 45"
  shows "sumBrightness acc data \<le> 255 * real (j + length data)"
  using assms
proof (induction data arbitrary: acc j)
  case Nil
  then show ?case by simp
next
  case (Cons p data)
  obtain r g b a where p: "p = (r, g, b, a)" by (cases p) auto
  let ?t = "fl ((real (unat r) + real (unat g) + real (unat b)) / 3)"
  have t: "0 \<le> ?t" "?t \<le> 255" using pixelBrightness_range [of r g b] by auto
  have lo: "0 \<le> acc + ?t" using Cons.prems(1) t(1) by linarith
  have "acc + ?t \<le> 255 * real j + 255" using Cons.prems(2) t(2) by linarith
  also have "\<dots> = real (255 * Suc j)" by simp
  finally have le: "acc + ?t \<le> real (255 * Suc j)" .
  have "Suc j \<le> 2 ^ 45" using Cons.prems(3) by simp
  then have "255 * Suc j \<le> 255 * 2 ^ 45" by (rule mult_le_mono2)
  also have "\<dots> < (2::nat) ^ 53" by simp
  finally have small: "255 * Suc j < 2 ^ 53" .
  have "fl (acc + ?t) \<le> fl (real (255 * Suc j))" using lo le by (rule fl_mono)
  also have "\<dots> = real (255 * Suc j)" using small by (rule fl_nat)
  finally have a: "fl (acc + ?t) \<le> 255 * real (Suc j)" by simp
  have b: "0 \<le> fl (acc + ?t)" using lo by (rule fl_nonneg)
  have c: "Suc j + length data \<le> 2 ^ 45" using Cons.prems(3) by simp
  from Cons.IH [OF b a c] show ?case by (simp add: p del: of_nat_unat)
qed

text \<open>The mean brightness is not negative, and at most 255 for an image of at most \<open>2^45\<close> pixels.\<close>

lemma meanBrightness_nonneg: "0 \<le> meanBrightness data"
proof -
  have "0 \<le> sumBrightness 0 data" by (rule sumBrightness_nonneg) simp
  then have "0 \<le> sumBrightness 0 data / real (length data)" by simp
  then show ?thesis unfolding meanBrightness_def by (rule fl_nonneg)
qed

lemma meanBrightness_upper:
  assumes "data \<noteq> []" and "length data \<le> 2 ^ 45"
  shows "meanBrightness data \<le> 255"
proof -
  have pos: "0 < real (length data)" using assms(1) by simp
  have lo: "0 \<le> sumBrightness 0 data" by (rule sumBrightness_nonneg) simp
  have "sumBrightness 0 data \<le> 255 * real (0 + length data)"
    using assms(2) by (intro sumBrightness_upper) simp_all
  then have hi: "sumBrightness 0 data / real (length data) \<le> 255"
    using pos by (simp add: pos_divide_le_eq)
  have nn: "0 \<le> sumBrightness 0 data / real (length data)" using lo by simp
  have "fl 255 = 255" using fl_nat [of 255] by simp
  with fl_mono [OF nn hi] show ?thesis by (simp add: meanBrightness_def)
qed

lemma qualityOf_cases:
  "(qualityOf L = QGood \<longleftrightarrow> 100 < L \<and> L < 200)
   \<and> (qualityOf L = QFair \<longleftrightarrow> (50 < L \<and> L \<le> 100) \<or> 200 \<le> L)
   \<and> (qualityOf L = QPoor \<longleftrightarrow> L \<le> 50)"
  by (auto simp: qualityOf_def)

lemma lightingOf_cases:
  "(lightingOf L = LOverexposed \<longleftrightarrow> 180 < L)
   \<and> (lightingOf L = LLow \<longleftrightarrow> L < 80)
   \<and> (lightingOf L = LGood \<longleftrightarrow> 80 \<le> L \<and> L \<le> 180)"
  by (auto simp: lightingOf_def)

text \<open>
  C1, as the claim states it, fails: it gives quality Poor to every mean luminance outside
  (100,200) and (50,100]. A one-pixel image with red, green and blue 220 has mean
  luminance 220, which is in neither interval, and the analyzer reports quality Fair
  (the second test of the source, \<open>brightness > 50\<close>, has no upper bound).
\<close>

theorem analyzeImageQuality_bright_counterexample:
  "meanBrightness [(220, 220, 220, 255)] = 220
   \<and> \<not> (100 < (220::real) \<and> (220::real) < 200)
   \<and> \<not> (50 < (220::real) \<and> (220::real) \<le> 100)
   \<and> analyzeImageQuality [(220, 220, 220, 255)]
       = Inr \<lparr> quality = QFair, clarity = 100, lightingConditions = LOverexposed,
               objectDetectionCount = 1 \<rparr>"
proof -
  have f220: "fl 220 = 220" using fl_nat [of 220] by simp
  have m: "meanBrightness [(220, 220, 220, 255)] = 220"
    by (simp add: meanBrightness_def fl_zero f220)
  have f170: "fl 170 = 170" using fl_nat [of 170] by simp
  have "fl 100 = 100" using fl_nat [of 100] by simp
  moreover have "fl 100 \<le> fl (170 / 1.5)" by (rule fl_mono) simp_all
  ultimately have c: "100 \<le> fl (170 / 1.5)" by simp
  show ?thesis
    using c by (simp add: m analyzeImageQuality_def qualityOf_def lightingOf_def f170 Let_def)
qed

text \<open>
  C1, amended: for every image with at least one pixel the analyzer returns a report;
  quality and lightingCondition are functions (\<open>qualityOf L\<close>, \<open>lightingOf L\<close>) of the mean
  luminance L alone, where L is the mean as the source computes it, in doubles
  (\<open>meanBrightness\<close>); L is not negative, and at most 255 for an image of at most \<open>2^45\<close>
  pixels; quality is Good exactly for L in (100,200), Fair exactly for L in (50,100] or
  L at least 200, Poor exactly for L at most 50; lightingCondition is Overexposed
  exactly for L above 180, Low exactly for L below 80, Good exactly for L in [80,180].
  Each family of conditions is exhaustive and mutually exclusive, so the buckets
  partition the range.
\<close>

theorem analyzeImageQuality_buckets:
  assumes "data \<noteq> []"
  shows "\<exists>ia. analyzeImageQuality data = Inr ia
           \<and> 0 \<le> meanBrightness data
           \<and> (length data \<le> 2 ^ 45 \<longrightarrow> meanBrightness data \<le> 255)
           \<and> quality ia = qualityOf (meanBrightness data)
           \<and> lightingConditions ia = lightingOf (meanBrightness data)
           \<and> (quality ia = QGood \<longleftrightarrow> 100 < meanBrightness data \<and> meanBrightness data < 200)
           \<and> (quality ia = QFair \<longleftrightarrow>
                 (50 < meanBrightness data \<and> meanBrightness data \<le> 100)
                 \<or> 200 \<le> meanBrightness data)
           \<and> (quality ia = QPoor \<longleftrightarrow> meanBrightness data \<le> 50)
           \<and> (lightingConditions ia = LOverexposed \<longleftrightarrow> 180 < meanBrightness data)
           \<and> (lightingConditions ia = LLow \<longleftrightarrow> meanBrightness data < 80)
           \<and> (lightingConditions ia = LGood \<longleftrightarrow>
                 80 \<le> meanBrightness data \<and> meanBrightness data \<le> 180)"
  using assms meanBrightness_nonneg [of data] meanBrightness_upper [OF assms]
    qualityOf_cases [of "meanBrightness data"] lightingOf_cases [of "meanBrightness data"]
  by (simp add: analyzeImageQuality_def Let_def)

text \<open>
  Four pixels whose exact mean is 50: the doubles give the mean \<open>50 + 2^-47\<close>, so the
  quality is Fair.
\<close>

lemma meanBrightness_boundary_50:
  "meanBrightness [(169, 0, 0, 255), (132, 0, 0, 255), (175, 0, 0, 255), (124, 0, 0, 255)]
     = 50 + 1 / 2 ^ 47"
  by code_simp

theorem analyzeImageQuality_buckets_witness:
  "[(169, 0, 0, 255), (132, 0, 0, 255), (175, 0, 0, 255), (124, 0, 0, 255) :: rgba] \<noteq> []
   \<and> length [(169, 0, 0, 255), (132, 0, 0, 255), (175, 0, 0, 255), (124, 0, 0, 255) :: rgba]
       \<le> 2 ^ 45
   \<and> meanBrightness [(169, 0, 0, 255), (132, 0, 0, 255), (175, 0, 0, 255), (124, 0, 0, 255)]
       = 50 + 1 / 2 ^ 47
   \<and> meanBrightness [(169, 0, 0, 255), (132, 0, 0, 255), (175, 0, 0, 255), (124, 0, 0, 255)]
       \<le> 255
   \<and> (\<exists>ia. analyzeImageQuality
               [(169, 0, 0, 255), (132, 0, 0, 255), (175, 0, 0, 255), (124, 0, 0, 255)] = Inr ia
          \<and> quality ia = QFair \<and> lightingConditions ia = LLow)"
proof -
  let ?img = "[(169, 0, 0, 255), (132, 0, 0, 255), (175, 0, 0, 255), (124, 0, 0, 255) :: rgba]"
  have ne: "?img \<noteq> []" by simp
  have len: "length ?img \<le> 2 ^ 45" by simp
  from analyzeImageQuality_buckets [OF ne] len
  obtain ia where a: "analyzeImageQuality ?img = Inr ia"
    and up: "meanBrightness ?img \<le> 255"
    and q: "quality ia = qualityOf (meanBrightness ?img)"
    and l: "lightingConditions ia = lightingOf (meanBrightness ?img)"
    by blast
  have "qualityOf (50 + 1 / 2 ^ 47) = QFair" by (simp add: qualityOf_def)
  with q have q': "quality ia = QFair" by (simp only: meanBrightness_boundary_50)
  have "lightingOf (50 + 1 / 2 ^ 47) = LLow" by (simp add: lightingOf_def)
  with l have l': "lightingConditions ia = LLow" by (simp only: meanBrightness_boundary_50)
  from ne len up a q' l' meanBrightness_boundary_50 show ?thesis by blast
qed

text \<open>
  Further images whose mean falls next to a boundary, and the same three pixels in two
  orders: the mean is the one the doubles give, and it depends on the order.
\<close>

lemma meanBrightness_boundary_80:
  "meanBrightness [(255, 7, 0, 255), (255, 15, 0, 255), (188, 0, 0, 255)] = 80 - 1 / 2 ^ 46"
  by code_simp

lemma meanBrightness_order:
  "meanBrightness [(255, 183, 0, 255), (255, 133, 0, 255), (74, 0, 0, 255)] = 100 + 1 / 2 ^ 46
   \<and> meanBrightness [(74, 0, 0, 255), (255, 183, 0, 255), (255, 133, 0, 255)] = 100"
  by code_simp

section \<open>Properties of the confidence adjustment\<close>

lemma adjustConfidence_closed:
  "adjustConfidence C ia =
     round (min 99 (C * (if quality ia = QPoor then 0.8 else 1)
                      * (if lightingConditions ia = LLow then 0.9 else 1)))"
  by (simp add: adjustConfidence_def)

lemma round_min99_le: "round (min (99::real) x) \<le> 99"
proof -
  have "round (min 99 x) \<le> round (99::real)" by (rule round_mono) simp
  then show ?thesis by simp
qed

lemma round_min99_ge: "0 \<le> x \<Longrightarrow> 0 \<le> round (min (99::real) x)"
proof -
  assume "0 \<le> x"
  then have "round (0::real) \<le> round (min 99 x)" by (intro round_mono) simp
  then show ?thesis by simp
qed

lemma processEnhancedPredictions_confidence:
  "map_of (processEnhancedPredictions (b, r, h) ia us um) ''confidence''
     = Some (JNum (of_int (adjustConfidence (max (max b r) h * 100) ia)))"
  by (simp add: processEnhancedPredictions_def Let_def)

text \<open>
  C2: for a raw confidence C in [0,100] and any image quality report, the adjusted
  confidence is \<open>round (min 99 C')\<close>, where C' is C times 0.8 if the quality is Poor and
  times 0.9 if the lighting is Low (both factors when both hold); it is an integer in
  [0,99], never 100; and it is the confidence that \<open>processEnhancedPredictions\<close> reports
  for scores whose maximum, on the 0-100 scale, is C.
\<close>

theorem adjustConfidence_spec:
  assumes "0 \<le> C" and "C \<le> 100"
  shows "adjustConfidence C ia =
           round (min 99 (C * (if quality ia = QPoor then 0.8 else 1)
                            * (if lightingConditions ia = LLow then 0.9 else 1)))
         \<and> 0 \<le> adjustConfidence C ia \<and> adjustConfidence C ia \<le> 99
         \<and> adjustConfidence C ia \<noteq> 100
         \<and> (\<forall>b r h us um. max (max b r) h * 100 = C \<longrightarrow>
               map_of (processEnhancedPredictions (b, r, h) ia us um) ''confidence''
                 = Some (JNum (of_int (adjustConfidence C ia))))"
proof -
  let ?x = "C * (if quality ia = QPoor then 0.8 else 1)
              * (if lightingConditions ia = LLow then 0.9 else 1)"
  have eq: "adjustConfidence C ia = round (min 99 ?x)" by (rule adjustConfidence_closed)
  have "0 \<le> ?x" using assms(1) by simp
  then have lo: "0 \<le> round (min 99 ?x)" by (rule round_min99_ge)
  have hi: "round (min 99 ?x) \<le> 99" by (rule round_min99_le)
  have pep: "\<forall>b r h us um. max (max b r) h * 100 = C \<longrightarrow>
               map_of (processEnhancedPredictions (b, r, h) ia us um) ''confidence''
                 = Some (JNum (of_int (adjustConfidence C ia)))"
    using processEnhancedPredictions_confidence by blast
  from eq lo hi pep show ?thesis by simp
qed

theorem adjustConfidence_spec_witness:
  "(0::real) \<le> 100 \<and> (100::real) \<le> 100
   \<and> adjustConfidence 100 \<lparr> quality = QPoor, clarity = 0, lightingConditions = LLow,
                              objectDetectionCount = 1 \<rparr> = 72
   \<and> adjustConfidence 100 \<lparr> quality = QGood, clarity = 52, lightingConditions = LGood,
                              objectDetectionCount = 1 \<rparr> = 99"
  using adjustConfidence_spec [of 100 "\<lparr> quality = QPoor, clarity = 0,
                                        lightingConditions = LLow, objectDetectionCount = 1 \<rparr>"]
    adjustConfidence_spec [of 100 "\<lparr> quality = QGood, clarity = 52,
                                      lightingConditions = LGood, objectDetectionCount = 1 \<rparr>"]
  by simp

text \<open>
  C3: for a raw confidence C in [0,100] and a fixed lighting condition (and the other
  fields of the report fixed), the adjusted confidence does not increase as the quality
  degrades from Good to Fair to Poor.
\<close>

theorem adjustConfidence_quality_monotone:
  assumes "0 \<le> C" and "C \<le> 100"
  shows "adjustConfidence C (ia\<lparr>quality := QPoor\<rparr>) \<le> adjustConfidence C (ia\<lparr>quality := QFair\<rparr>)
         \<and> adjustConfidence C (ia\<lparr>quality := QFair\<rparr>) \<le> adjustConfidence C (ia\<lparr>quality := QGood\<rparr>)"
proof -
  let ?l = "if lightingConditions ia = LLow then (0.9::real) else 1"
  have l: "0 \<le> ?l" by simp
  have "C * 0.8 \<le> C" using assms(1) by simp
  then have "C * 0.8 * ?l \<le> C * ?l" using l by (rule mult_right_mono)
  then have "min 99 (C * 0.8 * ?l) \<le> min 99 (C * ?l)" by simp
  then have "round (min 99 (C * 0.8 * ?l)) \<le> round (min 99 (C * ?l))" by (rule round_mono)
  then show ?thesis by (simp add: adjustConfidence_closed)
qed

theorem adjustConfidence_quality_monotone_witness:
  "(0::real) \<le> 90 \<and> (90::real) \<le> 100
   \<and> adjustConfidence 90 \<lparr> quality = QPoor, clarity = 0, lightingConditions = LLow,
                             objectDetectionCount = 1 \<rparr> = 65
   \<and> adjustConfidence 90 \<lparr> quality = QFair, clarity = 0, lightingConditions = LLow,
                             objectDetectionCount = 1 \<rparr> = 81
   \<and> adjustConfidence 90 \<lparr> quality = QGood, clarity = 0, lightingConditions = LLow,
                             objectDetectionCount = 1 \<rparr> = 81"
  using adjustConfidence_quality_monotone [of 90 "\<lparr> quality = QPoor, clarity = 0,
                                       lightingConditions = LLow, objectDetectionCount = 1 \<rparr>"]
  by (simp add: adjustConfidence_def round_def)

section \<open>Properties of the orchestrator\<close>

lemma mockClassification_Inr: "\<exists>r ev. mockClassification d = (Inr r, ev)"
  by (simp add: mockClassification_def Let_def)

text \<open>
  C4: for every input, configuration, environment and state of the hooks, \<open>classifyWaste\<close>
  returns a result and throws nothing; whenever the backend it chose (the on-device
  classifier for an image with the model ready, the remote classifier for a file with an
  endpoint set) throws, the result returned is the one of the simulated classifier.
  (Every call to the outside is taken to return or to throw.)
\<close>

theorem classifyWaste_never_throws:
  "\<exists>r hooks' ev. classifyWaste cfg env hooks input = (Inr r, hooks', ev)
      \<and> loading hooks' = False
      \<and> ((\<exists>err. fst (classifyWasteTry cfg env hooks input) = Inl err)
            \<longrightarrow> Inr r = fst (mockClassification (mockDraws env)))
      \<and> (\<forall>img err. input = FromImage img \<and> isReady (tensorflowModel hooks)
              \<and> fst (classifyImage env (tensorflowModel hooks) img) = Inl err
            \<longrightarrow> Inr r = fst (mockClassification (mockDraws env)))
      \<and> (\<forall>f err. input = FromFile f \<and> truthy (apiEndpoint cfg)
              \<and> fst (classifyImageViaAPI cfg env (apiClassification hooks) f) = Inl err
            \<longrightarrow> Inr r = fst (mockClassification (mockDraws env)))"
proof -
  obtain m mev where mock: "mockClassification (mockDraws env) = (Inr m, mev)"
    using mockClassification_Inr by blast
  obtain out st ev where tr: "classifyWasteTry cfg env hooks input = (out, st, ev)"
    by (cases "classifyWasteTry cfg env hooks input") auto
  have img: "fst (classifyWasteTry cfg env hooks (FromImage i)) =
               fst (classifyImage env (tensorflowModel hooks) i)"
    if "isReady (tensorflowModel hooks)" for i
    using that by (simp add: classifyWasteTry_def split: prod.splits)
  have fil: "fst (classifyWasteTry cfg env hooks (FromFile f)) =
               fst (classifyImageViaAPI cfg env (apiClassification hooks) f)"
    if "truthy (apiEndpoint cfg)" for f
    using that by (simp add: classifyWasteTry_def split: prod.splits)
  show ?thesis
  proof (cases out)
    case (Inl err)
    then have "classifyWaste cfg env hooks input =
                 (Inr m, hooks\<lparr> apiClassification := st, loading := False \<rparr>,
                  ev @ [ConsoleError ''Classification error:''] @ mev)"
      using tr mock by (simp add: classifyWaste_def)
    then show ?thesis using mock by simp
  next
    case (Inr r)
    then have cw: "classifyWaste cfg env hooks input =
                 (Inr r, hooks\<lparr> apiClassification := st, loading := False \<rparr>, ev)"
      using tr by (simp add: classifyWaste_def)
    have notl: "fst (classifyWasteTry cfg env hooks input) = Inr r" using tr Inr by simp
    show ?thesis using cw notl img fil by auto
  qed
qed

theorem classifyWaste_never_throws_witness:
  "truthy (apiEndpoint apiConfig)
   \<and> fst (classifyImageViaAPI apiConfig
            (sampleEnv\<lparr> fetch := \<lambda>url auth f.
                Inr \<lparr> ok = False, statusText = ''Internal Server Error'',
                      json = Inl (Error ''Unexpected end of JSON input'') \<rparr> \<rparr>)
            (apiClassification idleHooks) sampleFile)
       = Inl (Error ''API request failed: Internal Server Error'')
   \<and> fst (classifyWaste apiConfig
            (sampleEnv\<lparr> fetch := \<lambda>url auth f.
                Inr \<lparr> ok = False, statusText = ''Internal Server Error'',
                      json = Inl (Error ''Unexpected end of JSON input'') \<rparr> \<rparr>)
            idleHooks (FromFile sampleFile))
       = fst (mockClassification sampleDraws)"
proof -
  let ?env = "sampleEnv\<lparr> fetch := \<lambda>url auth f.
                Inr \<lparr> ok = False, statusText = ''Internal Server Error'',
                      json = Inl (Error ''Unexpected end of JSON input'') \<rparr> \<rparr>"
  have t: "truthy (apiEndpoint apiConfig)" by (simp add: apiConfig_def)
  have a: "fst (classifyImageViaAPI apiConfig ?env (apiClassification idleHooks) sampleFile)
             = Inl (Error ''API request failed: Internal Server Error'')"
    by (simp add: classifyImageViaAPI_def apiRequest_def apiConfig_def sampleEnv_def Let_def)
  have d: "mockDraws ?env = sampleDraws" by (simp add: sampleEnv_def)
  from classifyWaste_never_throws [of apiConfig ?env idleHooks "FromFile sampleFile"]
  obtain r hooks' ev where
    cw: "classifyWaste apiConfig ?env idleHooks (FromFile sampleFile) = (Inr r, hooks', ev)"
    and fb: "\<forall>f err. FromFile sampleFile = FromFile f \<and> truthy (apiEndpoint apiConfig)
              \<and> fst (classifyImageViaAPI apiConfig ?env (apiClassification idleHooks) f) = Inl err
            \<longrightarrow> Inr r = fst (mockClassification (mockDraws ?env))"
    by blast
  from fb t a have "Inr r = fst (mockClassification (mockDraws ?env))" by blast
  with cw d t a show ?thesis by simp
qed

text \<open>Thresholds of the doubles at 1, 2, 3 and 15.\<close>

lemma fl_less_1: "0 \<le> x \<Longrightarrow> fl x < 1 \<longleftrightarrow> x < 1 - 1 / 2 ^ 54"
  using fl_less_iff [of "2 ^ 53" x 53] by simp

lemma fl_less_2: "0 \<le> x \<Longrightarrow> fl x < 2 \<longleftrightarrow> x < 2 - 1 / 2 ^ 53"
  using fl_less_iff [of "2 ^ 53" x 52] by simp

lemma fl_less_3: "0 \<le> x \<Longrightarrow> fl x < 3 \<longleftrightarrow> x < 3 - 1 / 2 ^ 52"
  using fl_less_iff [of "3 * 2 ^ 51" x 51] by simp

lemma fl_less_15: "0 \<le> x \<Longrightarrow> fl x < 15 \<longleftrightarrow> x < 15 - 1 / 2 ^ 50"
  using fl_less_iff [of "15 * 2 ^ 49" x 49] by simp

lemma pick_types:
  assumes "fl u = u" and "0 \<le> u" and "u < 1"
  shows "pick [JStr ''biodegradable'', JStr ''recyclable'', JStr ''hazardous''] u
           = (if u * 3 < 1 - 1 / 2 ^ 54 then JStr ''biodegradable''
              else if u * 3 < 2 - 1 / 2 ^ 53 then JStr ''recyclable'' else JStr ''hazardous'')"
proof -
  have nn: "0 \<le> u * 3" using assms(2) by simp
  have "u \<le> 1 - 1 / 2 ^ 53" using assms(1,3) by (rule fl_below_one)
  then have "u * 3 < 3 - 1 / 2 ^ 52" by simp
  then have lt3: "fl (u * 3) < 3" using nn by (simp only: fl_less_3)
  have ge0: "0 \<le> fl (u * 3)" using nn by (rule fl_nonneg)
  let ?i = "\<lfloor>fl (u * 3)\<rfloor>"
  have i0: "0 \<le> ?i" using ge0 by simp
  have i3: "?i < 3" using lt3 by (simp add: floor_less_iff)
  have c0: "?i = 0 \<longleftrightarrow> u * 3 < 1 - 1 / 2 ^ 54"
  proof -
    have "?i = 0 \<longleftrightarrow> fl (u * 3) < 1" using ge0 by (auto simp: floor_eq_iff)
    then show ?thesis using nn by (simp only: fl_less_1)
  qed
  have c1: "?i \<le> 1 \<longleftrightarrow> u * 3 < 2 - 1 / 2 ^ 53"
  proof -
    have "?i \<le> 1 \<longleftrightarrow> ?i < 2" by auto
    also have "\<dots> \<longleftrightarrow> fl (u * 3) < 2" by (simp add: floor_less_iff)
    finally show ?thesis using nn by (simp only: fl_less_2)
  qed
  from i0 i3 have "?i = 0 \<or> ?i = 1 \<or> ?i = 2" by linarith
  then show ?thesis
  proof (elim disjE)
    assume i: "?i = 0"
    with c0 have "u * 3 < 1 - 1 / 2 ^ 54" by simp
    with i show ?thesis by (simp add: pick_def)
  next
    assume i: "?i = 1"
    with c0 have a: "\<not> u * 3 < 1 - 1 / 2 ^ 54" by simp
    from i c1 have b: "u * 3 < 2 - 1 / 2 ^ 53" by simp
    from i a b show ?thesis by (simp add: pick_def)
  next
    assume i: "?i = 2"
    with c0 have a: "\<not> u * 3 < 1 - 1 / 2 ^ 54" by simp
    from i c1 have b: "\<not> u * 3 < 2 - 1 / 2 ^ 53" by simp
    from i a b show ?thesis by (simp add: pick_def)
  qed
qed

lemma mock_confidence_range:
  assumes "fl u = u" and "0 \<le> u" and "u < 1"
  shows "85 \<le> 85 + \<lfloor>fl (u * 15)\<rfloor> \<and> 85 + \<lfloor>fl (u * 15)\<rfloor> \<le> 99"
proof -
  have nn: "0 \<le> u * 15" using assms(2) by simp
  then have "0 \<le> fl (u * 15)" by (rule fl_nonneg)
  then have lo: "0 \<le> \<lfloor>fl (u * 15)\<rfloor>" by simp
  have "u \<le> 1 - 1 / 2 ^ 53" using assms(1,3) by (rule fl_below_one)
  then have "u * 15 < 15 - 1 / 2 ^ 50" by simp
  then have "fl (u * 15) < 15" using nn by (simp only: fl_less_15)
  then have "\<lfloor>fl (u * 15)\<rfloor> < 15" by (simp add: floor_less_iff)
  with lo show ?thesis by simp
qed

lemma mock_delay_range:
  assumes "0 \<le> u" and "u < 1"
  shows "350 \<le> fl (350 + fl (u * 400)) \<and> fl (350 + fl (u * 400)) \<le> 750"
proof -
  have f350: "fl 350 = 350" using fl_nat [of 350] by simp
  have f400: "fl 400 = 400" using fl_nat [of 400] by simp
  have f750: "fl 750 = 750" using fl_nat [of 750] by simp
  have nn: "0 \<le> u * 400" using assms(1) by simp
  then have p0: "0 \<le> fl (u * 400)" by (rule fl_nonneg)
  have "u * 400 \<le> 400" using assms(2) by simp
  from fl_mono [OF nn this] have p1: "fl (u * 400) \<le> 400" by (simp only: f400)
  have "fl 350 \<le> fl (350 + fl (u * 400))" using p0 by (intro fl_mono) simp_all
  then have lo: "350 \<le> fl (350 + fl (u * 400))" by (simp only: f350)
  have "fl (350 + fl (u * 400)) \<le> fl 750" using p0 p1 by (intro fl_mono) simp_all
  then have hi: "fl (350 + fl (u * 400)) \<le> 750" by (simp only: f750)
  from lo hi show ?thesis by simp
qed

lemma classifyWaste_no_backend:
  assumes "\<not> isReady (tensorflowModel hooks)" and "\<not> truthy (apiEndpoint cfg)"
    and "mockClassification (mockDraws env) = (Inr r, ev)"
  shows "classifyWaste cfg env hooks input =
           (Inr r, hooks\<lparr> loading := False \<rparr>, ConsoleLog ''Using mock classification'' # ev)"
  using assms by (cases input) (simp_all add: classifyWaste_def classifyWasteTry_def)

text \<open>
  C5: when the on-device model is not ready and no remote endpoint is configured,
  \<open>classifyWaste\<close> returns the result of the simulated classifier, for either kind of
  input. With the values of \<open>Math.random()\<close> doubles in [0,1): the delay given to the
  timer is \<open>350 + 400 u\<close> of its draw, rounded as the doubles round, and lies in
  [350,750]; the category is the entry \<open>floor (3 u)\<close> of the three defined ones, which is
  biodegradable, recyclable or hazardous as \<open>3 u\<close> lies below \<open>1 - 2^-54\<close>, from there to
  below \<open>2 - 2^-53\<close>, or above (thirds of [0,1), up to the rounding of the product, so
  each category has the same share of a uniform draw up to \<open>2^-53\<close>); the confidence is
  \<open>85 + floor (15 u)\<close> of its draw, an integer in [85,99].
\<close>

theorem classifyWaste_simulated:
  assumes "\<not> isReady (tensorflowModel hooks)" and "\<not> truthy (apiEndpoint cfg)"
    and "fl (uDelay (mockDraws env)) = uDelay (mockDraws env)
         \<and> 0 \<le> uDelay (mockDraws env) \<and> uDelay (mockDraws env) < 1"
    and "fl (uType (mockDraws env)) = uType (mockDraws env)
         \<and> 0 \<le> uType (mockDraws env) \<and> uType (mockDraws env) < 1"
    and "fl (uConfidence (mockDraws env)) = uConfidence (mockDraws env)
         \<and> 0 \<le> uConfidence (mockDraws env) \<and> uConfidence (mockDraws env) < 1"
  shows "\<exists>props.
           classifyWaste cfg env hooks input =
             (Inr (JObj props), hooks\<lparr> loading := False \<rparr>,
              [ConsoleLog ''Using mock classification'',
               SetTimeout (fl (350 + fl (uDelay (mockDraws env) * 400)))])
         \<and> mockClassification (mockDraws env) =
             (Inr (JObj props), [SetTimeout (fl (350 + fl (uDelay (mockDraws env) * 400)))])
         \<and> 350 \<le> fl (350 + fl (uDelay (mockDraws env) * 400))
         \<and> fl (350 + fl (uDelay (mockDraws env) * 400)) \<le> 750
         \<and> field props ''type''
             \<in> {JStr ''biodegradable'', JStr ''recyclable'', JStr ''hazardous''}
         \<and> (field props ''type'' = JStr ''biodegradable'' \<longleftrightarrow>
               uType (mockDraws env) * 3 < 1 - 1 / 2 ^ 54)
         \<and> (field props ''type'' = JStr ''recyclable'' \<longleftrightarrow>
               1 - 1 / 2 ^ 54 \<le> uType (mockDraws env) * 3
               \<and> uType (mockDraws env) * 3 < 2 - 1 / 2 ^ 53)
         \<and> (field props ''type'' = JStr ''hazardous'' \<longleftrightarrow>
               2 - 1 / 2 ^ 53 \<le> uType (mockDraws env) * 3)
         \<and> field props ''confidence''
             = JNum (of_int (85 + \<lfloor>fl (uConfidence (mockDraws env) * 15)\<rfloor>))
         \<and> 85 \<le> 85 + \<lfloor>fl (uConfidence (mockDraws env) * 15)\<rfloor>
         \<and> 85 + \<lfloor>fl (uConfidence (mockDraws env) * 15)\<rfloor> \<le> 99"
proof -
  define d where "d = mockDraws env"
  define ty where
    "ty = pick [JStr ''biodegradable'', JStr ''recyclable'', JStr ''hazardous''] (uType d)"
  define c where "c = 85 + \<lfloor>fl (uConfidence d * 15)\<rfloor>"
  define delay where "delay = fl (350 + fl (uDelay d * 400))"
  define props where
    "props = [(''type'', ty), (''confidence'', JNum (of_int c)),
              (''processingTime'', JNum 600),
              (''details'',
                 JObj [(''subCategory'', getSubCategory ty (uSubCategory d)),
                       (''material'', getMaterial ty (uMaterial d)),
                       (''recommendations'', getRecommendations ty)])]"
  have mock: "mockClassification (mockDraws env) = (Inr (JObj props), [SetTimeout delay])"
    by (simp add: mockClassification_def Let_def props_def ty_def c_def delay_def d_def)
  have cw: "classifyWaste cfg env hooks input =
              (Inr (JObj props), hooks\<lparr> loading := False \<rparr>,
               [ConsoleLog ''Using mock classification'', SetTimeout delay])"
    using classifyWaste_no_backend [OF assms(1,2) mock] .
  have dl: "350 \<le> delay \<and> delay \<le> 750"
    unfolding delay_def using assms(3) by (intro mock_delay_range) (simp_all add: d_def)
  have tyv: "ty = (if uType d * 3 < 1 - 1 / 2 ^ 54 then JStr ''biodegradable''
                   else if uType d * 3 < 2 - 1 / 2 ^ 53 then JStr ''recyclable''
                   else JStr ''hazardous'')"
    unfolding ty_def using assms(4) by (intro pick_types) (simp_all add: d_def)
  have fty: "field props ''type'' = ty" by (simp add: field_def props_def)
  have fc: "field props ''confidence'' = JNum (of_int c)" by (simp add: field_def props_def)
  have cr: "85 \<le> c \<and> c \<le> 99"
    unfolding c_def using assms(5) by (intro mock_confidence_range) (simp_all add: d_def)
  have order: "(1::real) - 1 / 2 ^ 54 < 2 - 1 / 2 ^ 53" by simp
  have t1: "field props ''type''
              \<in> {JStr ''biodegradable'', JStr ''recyclable'', JStr ''hazardous''}"
    unfolding fty tyv by simp
  have t2: "field props ''type'' = JStr ''biodegradable'' \<longleftrightarrow> uType d * 3 < 1 - 1 / 2 ^ 54"
    unfolding fty tyv by simp
  have t3: "field props ''type'' = JStr ''recyclable'' \<longleftrightarrow>
              1 - 1 / 2 ^ 54 \<le> uType d * 3 \<and> uType d * 3 < 2 - 1 / 2 ^ 53"
    unfolding fty tyv using order by auto
  have t4: "field props ''type'' = JStr ''hazardous'' \<longleftrightarrow> 2 - 1 / 2 ^ 53 \<le> uType d * 3"
    unfolding fty tyv using order by auto
  from cw mock dl t1 t2 t3 t4 fc cr show ?thesis
    unfolding d_def delay_def c_def by blast
qed

theorem classifyWaste_simulated_witness:
  "\<not> isReady (tensorflowModel idleHooks) \<and> \<not> truthy (apiEndpoint noConfig)
   \<and> (\<exists>props. classifyWaste noConfig sampleEnv idleHooks (FromFile sampleFile) =
         (Inr (JObj props), idleHooks,
          [ConsoleLog ''Using mock classification'', SetTimeout 550])
        \<and> field props ''type'' = JStr ''recyclable''
        \<and> field props ''confidence'' = JNum 92)
   \<and> uType edgeDraws < 2 / 3 \<and> uDelay edgeDraws < 1 \<and> uConfidence edgeDraws < 1
   \<and> (\<exists>props. classifyWaste noConfig (sampleEnv\<lparr> mockDraws := edgeDraws \<rparr>) idleHooks
                  (FromFile sampleFile) =
         (Inr (JObj props), idleHooks,
          [ConsoleLog ''Using mock classification'', SetTimeout 750])
        \<and> field props ''type'' = JStr ''hazardous''
        \<and> field props ''confidence'' = JNum 99)"
proof -
  let ?env = "sampleEnv\<lparr> mockDraws := edgeDraws \<rparr>"
  have d: "mockDraws sampleEnv = sampleDraws" by (simp add: sampleEnv_def)
  have d': "mockDraws ?env = edgeDraws" by simp
  have h1: "\<not> isReady (tensorflowModel idleHooks)"
    by (simp add: idleHooks_def isReady_def initialTFState_def)
  have h2: "\<not> truthy (apiEndpoint noConfig)" by (simp add: noConfig_def)
  have l: "idleHooks\<lparr> loading := False \<rparr> = idleHooks" by (simp add: idleHooks_def)
  have half: "fl (1 / 2) = 1 / 2" by code_simp
  have top: "fl (1 - 1 / 2 ^ 53) = 1 - 1 / 2 ^ 53" by code_simp
  have third: "fl (6004799503160661 / 2 ^ 53) = 6004799503160661 / 2 ^ 53" by code_simp
  have delay: "fl (350 + fl (1 / 2 * 400)) = 550" by code_simp
  have delay': "fl (350 + fl ((1 - 1 / 2 ^ 53) * 400)) = 750" by code_simp
  have conf: "\<lfloor>fl (1 / 2 * 15)\<rfloor> = 7" by code_simp
  have conf': "\<lfloor>fl ((1 - 1 / 2 ^ 53) * 15)\<rfloor> = 14" by code_simp
  have h3: "fl (uDelay (mockDraws sampleEnv)) = uDelay (mockDraws sampleEnv)
            \<and> 0 \<le> uDelay (mockDraws sampleEnv) \<and> uDelay (mockDraws sampleEnv) < 1"
    using half by (simp add: d sampleDraws_def)
  have h4: "fl (uType (mockDraws sampleEnv)) = uType (mockDraws sampleEnv)
            \<and> 0 \<le> uType (mockDraws sampleEnv) \<and> uType (mockDraws sampleEnv) < 1"
    using half by (simp add: d sampleDraws_def)
  have h5: "fl (uConfidence (mockDraws sampleEnv)) = uConfidence (mockDraws sampleEnv)
            \<and> 0 \<le> uConfidence (mockDraws sampleEnv) \<and> uConfidence (mockDraws sampleEnv) < 1"
    using half by (simp add: d sampleDraws_def)
  have k3: "fl (uDelay (mockDraws ?env)) = uDelay (mockDraws ?env)
            \<and> 0 \<le> uDelay (mockDraws ?env) \<and> uDelay (mockDraws ?env) < 1"
    using top by (simp add: edgeDraws_def)
  have k4: "fl (uType (mockDraws ?env)) = uType (mockDraws ?env)
            \<and> 0 \<le> uType (mockDraws ?env) \<and> uType (mockDraws ?env) < 1"
    using third by (simp add: edgeDraws_def)
  have k5: "fl (uConfidence (mockDraws ?env)) = uConfidence (mockDraws ?env)
            \<and> 0 \<le> uConfidence (mockDraws ?env) \<and> uConfidence (mockDraws ?env) < 1"
    using top by (simp add: edgeDraws_def)
  from classifyWaste_simulated [OF h1 h2 h3 h4 h5, of "FromFile sampleFile"]
  obtain props where
    cw: "classifyWaste noConfig sampleEnv idleHooks (FromFile sampleFile) =
           (Inr (JObj props), idleHooks\<lparr> loading := False \<rparr>,
            [ConsoleLog ''Using mock classification'',
             SetTimeout (fl (350 + fl (uDelay (mockDraws sampleEnv) * 400)))])"
    and rec: "field props ''type'' = JStr ''recyclable'' \<longleftrightarrow>
               1 - 1 / 2 ^ 54 \<le> uType (mockDraws sampleEnv) * 3
               \<and> uType (mockDraws sampleEnv) * 3 < 2 - 1 / 2 ^ 53"
    and cf: "field props ''confidence''
               = JNum (of_int (85 + \<lfloor>fl (uConfidence (mockDraws sampleEnv) * 15)\<rfloor>))"
    by blast
  have a1: "classifyWaste noConfig sampleEnv idleHooks (FromFile sampleFile) =
              (Inr (JObj props), idleHooks,
               [ConsoleLog ''Using mock classification'', SetTimeout 550])"
    using cw delay by (simp add: l d sampleDraws_def)
  have a2: "field props ''type'' = JStr ''recyclable''"
    using rec by (simp add: d sampleDraws_def)
  have a3: "field props ''confidence'' = JNum 92"
    using cf conf by (simp add: d sampleDraws_def)
  from classifyWaste_simulated [OF h1 h2 k3 k4 k5, of "FromFile sampleFile"]
  obtain props' where
    cw': "classifyWaste noConfig ?env idleHooks (FromFile sampleFile) =
           (Inr (JObj props'), idleHooks\<lparr> loading := False \<rparr>,
            [ConsoleLog ''Using mock classification'',
             SetTimeout (fl (350 + fl (uDelay (mockDraws ?env) * 400)))])"
    and haz: "field props' ''type'' = JStr ''hazardous'' \<longleftrightarrow>
               2 - 1 / 2 ^ 53 \<le> uType (mockDraws ?env) * 3"
    and cf': "field props' ''confidence''
               = JNum (of_int (85 + \<lfloor>fl (uConfidence (mockDraws ?env) * 15)\<rfloor>))"
    by blast
  have b1: "classifyWaste noConfig ?env idleHooks (FromFile sampleFile) =
              (Inr (JObj props'), idleHooks,
               [ConsoleLog ''Using mock classification'', SetTimeout 750])"
    using cw' delay' by (simp add: l edgeDraws_def)
  have b2: "field props' ''type'' = JStr ''hazardous''"
    using haz by (simp add: edgeDraws_def)
  have b3: "field props' ''confidence'' = JNum 99"
    using cf' conf' by (simp add: edgeDraws_def)
  have e: "uType edgeDraws < 2 / 3 \<and> uDelay edgeDraws < 1 \<and> uConfidence edgeDraws < 1"
    by (simp add: edgeDraws_def)
  from h1 h2 a1 a2 a3 e b1 b2 b3 show ?thesis by blast
qed

section \<open>Properties of the model lifecycle\<close>

lemma loadModelTry_offline:
  assumes "tfImport env = None" and "loadLayersModel env (''indexeddb://'' @ modelKey) = Inr m"
  shows "loadModelTry cfg env st =
           (None,
            st\<lparr> model := Some m, modelInfo := Some offlineModelInfo, isOfflineMode := True,
                loadingState := Loaded \<rparr>,
            [ImportTf, LoadLayersModel (''indexeddb://'' @ modelKey), SetLoadingState Loaded])"
  using assms by (simp add: loadModelTry_def loadOfflineModel_def)

lemma loadModelTry_remote_ok:
  assumes "tfImport env = None" and "loadLayersModel env (''indexeddb://'' @ modelKey) = Inl e"
    and "tensorflowModelUrl cfg = Some url" and "url \<noteq> []"
    and "loadLayersModel env url = Inr m"
  shows "loadModelTry cfg env st =
           (None,
            st\<lparr> model := Some m, modelInfo := Some remoteModelInfo, loadingState := Loaded \<rparr>,
            [ImportTf, LoadLayersModel (''indexeddb://'' @ modelKey), LoadLayersModel url,
             SetLoadingState Loaded] @ snd (cacheModelOffline env m))"
  using assms
  by (simp add: loadModelTry_def loadOfflineModel_def cacheModelOffline_def split: option.splits)

lemma loadModelTry_remote_fails:
  assumes "tfImport env = None" and "loadLayersModel env (''indexeddb://'' @ modelKey) = Inl e"
    and "tensorflowModelUrl cfg = Some url" and "url \<noteq> []"
    and "loadLayersModel env url = Inl e'"
  shows "loadModelTry cfg env st =
           (Some e', st,
            [ImportTf, LoadLayersModel (''indexeddb://'' @ modelKey), LoadLayersModel url])"
  using assms by (simp add: loadModelTry_def loadOfflineModel_def)

lemma loadModelTry_demo_ok:
  assumes "tfImport env = None" and "loadLayersModel env (''indexeddb://'' @ modelKey) = Inl e"
    and "\<not> truthy (tensorflowModelUrl cfg)" and "sequential env = Inr m"
  shows "loadModelTry cfg env st =
           (None,
            st\<lparr> model := Some m, modelInfo := Some demoModelInfo, loadingState := Loaded \<rparr>,
            [ImportTf, LoadLayersModel (''indexeddb://'' @ modelKey), TfSequential,
             SetLoadingState Loaded])"
  using assms by (simp add: loadModelTry_def loadOfflineModel_def loadDemoModel_def)

lemma loadModelTry_demo_fails:
  assumes "tfImport env = None" and "loadLayersModel env (''indexeddb://'' @ modelKey) = Inl e"
    and "\<not> truthy (tensorflowModelUrl cfg)" and "sequential env = Inl e'"
  shows "loadModelTry cfg env st =
           (Some e', st, [ImportTf, LoadLayersModel (''indexeddb://'' @ modelKey), TfSequential])"
  using assms by (simp add: loadModelTry_def loadOfflineModel_def loadDemoModel_def)

lemma cacheModelOffline_trace:
  "TfSequential \<notin> set (snd (cacheModelOffline env m))
   \<and> SetLoadingState ErrorState \<notin> set (snd (cacheModelOffline env m))
   \<and> fst (cacheModelOffline env m) = None"
  by (simp add: cacheModelOffline_def split: option.splits)

lemma loadModel_import_fails:
  assumes "tfImport env = Some e"
  shows "loadModel cfg env st =
           (st\<lparr> loadingState := ErrorState,
                tfError := Some (case e of Error message \<Rightarrow> message
                                 | NotAnError \<Rightarrow> ''Failed to load ML model'') \<rparr>,
            [SetLoadingState Loading, ImportTf, SetLoadingState ErrorState,
             ConsoleWarn
               ''ML model loading failed, classification will use enhanced mock data''])"
  using assms by (simp add: loadModel_def loadModelTry_def)

text \<open>
  C6, amended: a load attempt first imports the library; if that fails, the attempt ends
  in Error and no source is tried. Otherwise the cached offline model under the fixed
  key is tried first; when it loads, the state becomes Loaded with that model, offline
  mode set and a ModelInfo with \<open>offlineCapable\<close> true, and nothing else is tried (the
  trace holds no remote fetch and no demo model). When it does not load and a remote
  model URL is configured, only that URL is tried next: success gives Loaded with the
  remote model, failure ends the attempt in Error, and the demo model is not built in
  either case. The demo model is built only when no remote URL is configured, and its
  success gives Loaded.
\<close>

theorem loadModel_source_order:
  "(\<forall>e. tfImport env = Some e \<longrightarrow>
      loadingState (fst (loadModel cfg env st)) = ErrorState
      \<and> model (fst (loadModel cfg env st)) = model st
      \<and> modelInfo (fst (loadModel cfg env st)) = modelInfo st
      \<and> snd (loadModel cfg env st) =
          [SetLoadingState Loading, ImportTf, SetLoadingState ErrorState,
           ConsoleWarn
             ''ML model loading failed, classification will use enhanced mock data''])
   \<and> (\<forall>m. tfImport env = None
          \<and> loadLayersModel env (''indexeddb://'' @ modelKey) = Inr m \<longrightarrow>
        loadingState (fst (loadModel cfg env st)) = Loaded
        \<and> model (fst (loadModel cfg env st)) = Some m
        \<and> isOfflineMode (fst (loadModel cfg env st))
        \<and> (\<exists>info. modelInfo (fst (loadModel cfg env st)) = Some info \<and> offlineCapable info)
        \<and> snd (loadModel cfg env st) =
            [SetLoadingState Loading, ImportTf,
             LoadLayersModel (''indexeddb://'' @ modelKey), SetLoadingState Loaded])
   \<and> (\<forall>e url. tfImport env = None
          \<and> loadLayersModel env (''indexeddb://'' @ modelKey) = Inl e
          \<and> tensorflowModelUrl cfg = Some url \<and> url \<noteq> [] \<longrightarrow>
        TfSequential \<notin> set (snd (loadModel cfg env st))
        \<and> take 4 (snd (loadModel cfg env st)) =
            [SetLoadingState Loading, ImportTf,
             LoadLayersModel (''indexeddb://'' @ modelKey), LoadLayersModel url]
        \<and> (\<forall>m. loadLayersModel env url = Inr m \<longrightarrow>
              loadingState (fst (loadModel cfg env st)) = Loaded
              \<and> model (fst (loadModel cfg env st)) = Some m)
        \<and> (\<forall>e'. loadLayersModel env url = Inl e' \<longrightarrow>
              loadingState (fst (loadModel cfg env st)) = ErrorState
              \<and> model (fst (loadModel cfg env st)) = model st))
   \<and> (\<forall>e. tfImport env = None
          \<and> loadLayersModel env (''indexeddb://'' @ modelKey) = Inl e
          \<and> \<not> truthy (tensorflowModelUrl cfg) \<longrightarrow>
        take 4 (snd (loadModel cfg env st)) =
            [SetLoadingState Loading, ImportTf,
             LoadLayersModel (''indexeddb://'' @ modelKey), TfSequential]
        \<and> (\<forall>m. sequential env = Inr m \<longrightarrow>
              loadingState (fst (loadModel cfg env st)) = Loaded
              \<and> model (fst (loadModel cfg env st)) = Some m)
        \<and> (\<forall>e'. sequential env = Inl e' \<longrightarrow>
              loadingState (fst (loadModel cfg env st)) = ErrorState))"
proof (intro conjI allI impI)
  fix e assume i: "tfImport env = Some e"
  show "loadingState (fst (loadModel cfg env st)) = ErrorState"
    by (simp add: loadModel_import_fails [OF i])
  show "model (fst (loadModel cfg env st)) = model st"
    by (simp add: loadModel_import_fails [OF i])
  show "modelInfo (fst (loadModel cfg env st)) = modelInfo st"
    by (simp add: loadModel_import_fails [OF i])
  show "snd (loadModel cfg env st) =
          [SetLoadingState Loading, ImportTf, SetLoadingState ErrorState,
           ConsoleWarn
             ''ML model loading failed, classification will use enhanced mock data'']"
    by (simp add: loadModel_import_fails [OF i])
next
  fix m
  assume h: "tfImport env = None \<and> loadLayersModel env (''indexeddb://'' @ modelKey) = Inr m"
  then have imp: "tfImport env = None"
    and off: "loadLayersModel env (''indexeddb://'' @ modelKey) = Inr m" by auto
  have t: "loadModelTry cfg env (st\<lparr> loadingState := Loading \<rparr>) =
          (None,
           st\<lparr> loadingState := Loading, model := Some m, modelInfo := Some offlineModelInfo,
               isOfflineMode := True, loadingState := Loaded \<rparr>,
           [ImportTf, LoadLayersModel (''indexeddb://'' @ modelKey), SetLoadingState Loaded])"
    by (rule loadModelTry_offline [OF imp off])
  have oc: "offlineCapable offlineModelInfo" by (simp add: offlineModelInfo_def)
  show "loadingState (fst (loadModel cfg env st)) = Loaded" by (simp add: loadModel_def t)
  show "model (fst (loadModel cfg env st)) = Some m" by (simp add: loadModel_def t)
  show "isOfflineMode (fst (loadModel cfg env st))" by (simp add: loadModel_def t)
  show "\<exists>info. modelInfo (fst (loadModel cfg env st)) = Some info \<and> offlineCapable info"
    using oc by (simp add: loadModel_def t)
  show "snd (loadModel cfg env st) =
          [SetLoadingState Loading, ImportTf,
           LoadLayersModel (''indexeddb://'' @ modelKey), SetLoadingState Loaded]"
    by (simp add: loadModel_def t)
next
  fix e url
  assume h: "tfImport env = None
              \<and> loadLayersModel env (''indexeddb://'' @ modelKey) = Inl e
              \<and> tensorflowModelUrl cfg = Some url \<and> url \<noteq> []"
  then have imp: "tfImport env = None"
    and off: "loadLayersModel env (''indexeddb://'' @ modelKey) = Inl e"
    and u: "tensorflowModelUrl cfg = Some url" and ne: "url \<noteq> []" by auto
  show "TfSequential \<notin> set (snd (loadModel cfg env st))"
  proof (cases "loadLayersModel env url")
    case (Inl e')
    show ?thesis
      by (simp add: loadModel_def loadModelTry_remote_fails [OF imp off u ne Inl]
          split: thrown.splits)
  next
    case (Inr m)
    show ?thesis
      using cacheModelOffline_trace [of env m]
      by (simp add: loadModel_def loadModelTry_remote_ok [OF imp off u ne Inr])
  qed
  show "take 4 (snd (loadModel cfg env st)) =
          [SetLoadingState Loading, ImportTf,
           LoadLayersModel (''indexeddb://'' @ modelKey), LoadLayersModel url]"
  proof (cases "loadLayersModel env url")
    case (Inl e')
    show ?thesis
      by (simp add: loadModel_def loadModelTry_remote_fails [OF imp off u ne Inl])
  next
    case (Inr m)
    show ?thesis
      by (simp add: loadModel_def loadModelTry_remote_ok [OF imp off u ne Inr])
  qed
  {
    fix m assume r: "loadLayersModel env url = Inr m"
    show "loadingState (fst (loadModel cfg env st)) = Loaded"
      by (simp add: loadModel_def loadModelTry_remote_ok [OF imp off u ne r])
    show "model (fst (loadModel cfg env st)) = Some m"
      by (simp add: loadModel_def loadModelTry_remote_ok [OF imp off u ne r])
  }
  {
    fix e' assume r: "loadLayersModel env url = Inl e'"
    show "loadingState (fst (loadModel cfg env st)) = ErrorState"
      by (simp add: loadModel_def loadModelTry_remote_fails [OF imp off u ne r])
    show "model (fst (loadModel cfg env st)) = model st"
      by (simp add: loadModel_def loadModelTry_remote_fails [OF imp off u ne r])
  }
next
  fix e
  assume h: "tfImport env = None
              \<and> loadLayersModel env (''indexeddb://'' @ modelKey) = Inl e
              \<and> \<not> truthy (tensorflowModelUrl cfg)"
  then have imp: "tfImport env = None"
    and off: "loadLayersModel env (''indexeddb://'' @ modelKey) = Inl e"
    and nu: "\<not> truthy (tensorflowModelUrl cfg)" by auto
  show "take 4 (snd (loadModel cfg env st)) =
          [SetLoadingState Loading, ImportTf,
           LoadLayersModel (''indexeddb://'' @ modelKey), TfSequential]"
  proof (cases "sequential env")
    case (Inl e')
    show ?thesis
      by (simp add: loadModel_def loadModelTry_demo_fails [OF imp off nu Inl])
  next
    case (Inr m)
    show ?thesis
      by (simp add: loadModel_def loadModelTry_demo_ok [OF imp off nu Inr])
  qed
  {
    fix m assume r: "sequential env = Inr m"
    show "loadingState (fst (loadModel cfg env st)) = Loaded"
      by (simp add: loadModel_def loadModelTry_demo_ok [OF imp off nu r])
    show "model (fst (loadModel cfg env st)) = Some m"
      by (simp add: loadModel_def loadModelTry_demo_ok [OF imp off nu r])
  }
  {
    fix e' assume r: "sequential env = Inl e'"
    show "loadingState (fst (loadModel cfg env st)) = ErrorState"
      by (simp add: loadModel_def loadModelTry_demo_fails [OF imp off nu r])
  }
qed

theorem loadModel_source_order_witness:
  "tfImport (sampleEnv\<lparr> loadLayersModel := \<lambda>url.
               if url = ''indexeddb://ecosort-waste-classifier-v2'' then Inr 1
               else Inl (Error ''Request to model URL failed'') \<rparr>) = None
   \<and> tensorflowModelUrl remoteModelConfig = Some ''https://models.example/model.json''
   \<and> loadingState (fst (loadModel remoteModelConfig
         (sampleEnv\<lparr> loadLayersModel := \<lambda>url.
               if url = ''indexeddb://ecosort-waste-classifier-v2'' then Inr 1
               else Inl (Error ''Request to model URL failed'') \<rparr>) initialTFState)) = Loaded
   \<and> model (fst (loadModel remoteModelConfig
         (sampleEnv\<lparr> loadLayersModel := \<lambda>url.
               if url = ''indexeddb://ecosort-waste-classifier-v2'' then Inr 1
               else Inl (Error ''Request to model URL failed'') \<rparr>) initialTFState)) = Some 1
   \<and> snd (loadModel remoteModelConfig
         (sampleEnv\<lparr> loadLayersModel := \<lambda>url.
               if url = ''indexeddb://ecosort-waste-classifier-v2'' then Inr 1
               else Inl (Error ''Request to model URL failed'') \<rparr>) initialTFState)
       = [SetLoadingState Loading, ImportTf,
          LoadLayersModel ''indexeddb://ecosort-waste-classifier-v2'', SetLoadingState Loaded]
   \<and> tfImport (sampleEnv\<lparr> tfImport := Some (Error ''Failed to fetch module''),
         loadLayersModel := \<lambda>url. Inr 1 \<rparr>) = Some (Error ''Failed to fetch module'')
   \<and> loadingState (fst (loadModel remoteModelConfig
         (sampleEnv\<lparr> tfImport := Some (Error ''Failed to fetch module''),
            loadLayersModel := \<lambda>url. Inr 1 \<rparr>) initialTFState)) = ErrorState
   \<and> modelInfo (fst (loadModel remoteModelConfig
         (sampleEnv\<lparr> tfImport := Some (Error ''Failed to fetch module''),
            loadLayersModel := \<lambda>url. Inr 1 \<rparr>) initialTFState)) = None
   \<and> loadingState (fst (loadModel remoteModelConfig
         (sampleEnv\<lparr> loadLayersModel := \<lambda>url.
               if url = ''https://models.example/model.json'' then Inr 7
               else Inl (Error ''Request to model URL failed'') \<rparr>) initialTFState)) = Loaded
   \<and> model (fst (loadModel remoteModelConfig
         (sampleEnv\<lparr> loadLayersModel := \<lambda>url.
               if url = ''https://models.example/model.json'' then Inr 7
               else Inl (Error ''Request to model URL failed'') \<rparr>) initialTFState)) = Some 7
   \<and> TfSequential \<notin> set (snd (loadModel remoteModelConfig
         (sampleEnv\<lparr> loadLayersModel := \<lambda>url.
               if url = ''https://models.example/model.json'' then Inr 7
               else Inl (Error ''Request to model URL failed'') \<rparr>) initialTFState))
   \<and> \<not> truthy (tensorflowModelUrl noConfig)
   \<and> sequential sampleEnv = Inr 0
   \<and> loadingState (fst (loadModel noConfig sampleEnv initialTFState)) = Loaded
   \<and> model (fst (loadModel noConfig sampleEnv initialTFState)) = Some 0
   \<and> take 4 (snd (loadModel noConfig sampleEnv initialTFState))
       = [SetLoadingState Loading, ImportTf,
          LoadLayersModel ''indexeddb://ecosort-waste-classifier-v2'', TfSequential]"
proof -
  let ?env = "sampleEnv\<lparr> loadLayersModel := \<lambda>url.
               if url = ''indexeddb://ecosort-waste-classifier-v2'' then Inr (1::nat)
               else Inl (Error ''Request to model URL failed'') \<rparr>"
  let ?env' = "sampleEnv\<lparr> tfImport := Some (Error ''Failed to fetch module''),
                 loadLayersModel := \<lambda>url. Inr (1::nat) \<rparr>"
  have i: "tfImport ?env = None" by (simp add: sampleEnv_def)
  have off: "loadLayersModel ?env (''indexeddb://'' @ modelKey) = Inr 1"
    by (simp add: modelKey_def)
  have u: "tensorflowModelUrl remoteModelConfig = Some ''https://models.example/model.json''"
    by (simp add: remoteModelConfig_def)
  have i': "tfImport ?env' = Some (Error ''Failed to fetch module'')" by simp
  from loadModel_source_order [of ?env remoteModelConfig initialTFState] off i
  have a: "loadingState (fst (loadModel remoteModelConfig ?env initialTFState)) = Loaded
           \<and> model (fst (loadModel remoteModelConfig ?env initialTFState)) = Some 1
           \<and> snd (loadModel remoteModelConfig ?env initialTFState) =
               [SetLoadingState Loading, ImportTf,
                LoadLayersModel (''indexeddb://'' @ modelKey), SetLoadingState Loaded]"
    by blast
  from loadModel_source_order [of ?env' remoteModelConfig initialTFState] i'
  have b: "loadingState (fst (loadModel remoteModelConfig ?env' initialTFState)) = ErrorState
           \<and> modelInfo (fst (loadModel remoteModelConfig ?env' initialTFState))
               = modelInfo (initialTFState :: nat TFState)"
    by blast
  let ?env2 = "sampleEnv\<lparr> loadLayersModel := \<lambda>url.
               if url = ''https://models.example/model.json'' then Inr (7::nat)
               else Inl (Error ''Request to model URL failed'') \<rparr>"
  have i2: "tfImport ?env2 = None" by (simp add: sampleEnv_def)
  have off2: "loadLayersModel ?env2 (''indexeddb://'' @ modelKey)
                = Inl (Error ''Request to model URL failed'')"
    by (simp add: modelKey_def)
  have ne: "''https://models.example/model.json'' \<noteq> []" by simp
  have r2: "loadLayersModel ?env2 ''https://models.example/model.json'' = Inr 7" by simp
  from loadModel_source_order [of ?env2 remoteModelConfig initialTFState] i2 off2 u ne r2
  have c: "loadingState (fst (loadModel remoteModelConfig ?env2 initialTFState)) = Loaded
           \<and> model (fst (loadModel remoteModelConfig ?env2 initialTFState)) = Some 7
           \<and> TfSequential \<notin> set (snd (loadModel remoteModelConfig ?env2 initialTFState))"
    by blast
  have i3: "tfImport sampleEnv = None" by (simp add: sampleEnv_def)
  have off3: "loadLayersModel sampleEnv (''indexeddb://'' @ modelKey)
                = Inl (Error ''Request to model URL failed'')"
    by (simp add: sampleEnv_def)
  have nu: "\<not> truthy (tensorflowModelUrl noConfig)" by (simp add: noConfig_def)
  have sq: "sequential sampleEnv = Inr 0" by (simp add: sampleEnv_def)
  from loadModel_source_order [of sampleEnv noConfig initialTFState] i3 off3 nu sq
  have d: "loadingState (fst (loadModel noConfig sampleEnv initialTFState)) = Loaded
           \<and> model (fst (loadModel noConfig sampleEnv initialTFState)) = Some 0
           \<and> take 4 (snd (loadModel noConfig sampleEnv initialTFState))
               = [SetLoadingState Loading, ImportTf,
                  LoadLayersModel (''indexeddb://'' @ modelKey), TfSequential]"
    by blast
  from a b c d i u i' nu sq show ?thesis by (simp add: modelKey_def initialTFState_def)
qed

text \<open>
  C6, as the claim states it, fails: the sources are not a chain that stops at the first
  success. With nothing cached, a remote URL configured and the remote load failing,
  the attempt ends in Error with no model, and the demo model (which would have been
  built successfully) is never tried.
\<close>

theorem loadModel_remote_failure_counterexample:
  "tfImport sampleEnv = None
   \<and> tensorflowModelUrl remoteModelConfig = Some ''https://models.example/model.json''
   \<and> loadLayersModel sampleEnv ''indexeddb://ecosort-waste-classifier-v2''
       = Inl (Error ''Request to model URL failed'')
   \<and> loadLayersModel sampleEnv ''https://models.example/model.json''
       = Inl (Error ''Request to model URL failed'')
   \<and> sequential sampleEnv = Inr 0
   \<and> loadingState (fst (loadModel remoteModelConfig sampleEnv initialTFState)) = ErrorState
   \<and> model (fst (loadModel remoteModelConfig sampleEnv initialTFState)) = None
   \<and> snd (loadModel remoteModelConfig sampleEnv initialTFState)
       = [SetLoadingState Loading, ImportTf,
          LoadLayersModel ''indexeddb://ecosort-waste-classifier-v2'',
          LoadLayersModel ''https://models.example/model.json'',
          SetLoadingState ErrorState,
          ConsoleWarn ''ML model loading failed, classification will use enhanced mock data'']"
  by (simp add: loadModel_def loadModelTry_def loadOfflineModel_def sampleEnv_def
      remoteModelConfig_def initialTFState_def modelKey_def)

text \<open>
  C7: after a model is loaded from the remote URL, a failure to save it to the offline
  cache is swallowed by \<open>cacheModelOffline\<close> (it throws nothing, and warns on the
  console); the load ends in Loaded with the remote model and no error message, and the
  loading state is never set to Error.
\<close>

theorem cacheModelOffline_failure_swallowed:
  assumes "tfImport env = None"
    and "loadLayersModel env (''indexeddb://'' @ modelKey) = Inl e"
    and "tensorflowModelUrl cfg = Some url" and "url \<noteq> []"
    and "loadLayersModel env url = Inr m"
    and "modelSave env m (''indexeddb://'' @ modelKey) = Some err"
  shows "fst (cacheModelOffline env m) = None
         \<and> loadingState (fst (loadModel cfg env st)) = Loaded
         \<and> model (fst (loadModel cfg env st)) = Some m
         \<and> tfError (fst (loadModel cfg env st)) = tfError st
         \<and> SetLoadingState ErrorState \<notin> set (snd (loadModel cfg env st))
         \<and> snd (loadModel cfg env st) =
             [SetLoadingState Loading, ImportTf,
              LoadLayersModel (''indexeddb://'' @ modelKey), LoadLayersModel url,
              SetLoadingState Loaded, ModelSave (''indexeddb://'' @ modelKey),
              ConsoleWarn ''Failed to cache model offline:'']"
proof -
  have c: "cacheModelOffline env m =
             (None, [ModelSave (''indexeddb://'' @ modelKey),
                     ConsoleWarn ''Failed to cache model offline:''])"
    using assms(6) by (simp add: cacheModelOffline_def)
  have t: "loadModelTry cfg env (st\<lparr> loadingState := Loading \<rparr>) =
             (None,
              st\<lparr> loadingState := Loading, model := Some m,
                  modelInfo := Some remoteModelInfo, loadingState := Loaded \<rparr>,
              [ImportTf, LoadLayersModel (''indexeddb://'' @ modelKey), LoadLayersModel url,
               SetLoadingState Loaded] @ snd (cacheModelOffline env m))"
    by (rule loadModelTry_remote_ok [OF assms(1-5)])
  show ?thesis by (simp add: loadModel_def t c)
qed

theorem cacheModelOffline_failure_swallowed_witness:
  "loadLayersModel (sampleEnv\<lparr> loadLayersModel := \<lambda>url.
               if url = ''https://models.example/model.json'' then Inr 7
               else Inl (Error ''Request to model URL failed''),
             modelSave := \<lambda>m url. Some (Error ''QuotaExceededError'') \<rparr>)
       ''https://models.example/model.json'' = Inr 7
   \<and> modelSave (sampleEnv\<lparr> loadLayersModel := \<lambda>url.
               if url = ''https://models.example/model.json'' then Inr 7
               else Inl (Error ''Request to model URL failed''),
             modelSave := \<lambda>m url. Some (Error ''QuotaExceededError'') \<rparr>)
       7 ''indexeddb://ecosort-waste-classifier-v2'' = Some (Error ''QuotaExceededError'')
   \<and> loadingState (fst (loadModel remoteModelConfig
         (sampleEnv\<lparr> loadLayersModel := \<lambda>url.
               if url = ''https://models.example/model.json'' then Inr 7
               else Inl (Error ''Request to model URL failed''),
             modelSave := \<lambda>m url. Some (Error ''QuotaExceededError'') \<rparr>)
         initialTFState)) = Loaded
   \<and> tfError (fst (loadModel remoteModelConfig
         (sampleEnv\<lparr> loadLayersModel := \<lambda>url.
               if url = ''https://models.example/model.json'' then Inr 7
               else Inl (Error ''Request to model URL failed''),
             modelSave := \<lambda>m url. Some (Error ''QuotaExceededError'') \<rparr>)
         initialTFState)) = None"
proof -
  let ?env = "sampleEnv\<lparr> loadLayersModel := \<lambda>url.
               if url = ''https://models.example/model.json'' then Inr (7::nat)
               else Inl (Error ''Request to model URL failed''),
             modelSave := \<lambda>m url. Some (Error ''QuotaExceededError'') \<rparr>"
  have h1: "tfImport ?env = None" by (simp add: sampleEnv_def)
  have h2: "loadLayersModel ?env (''indexeddb://'' @ modelKey)
              = Inl (Error ''Request to model URL failed'')"
    by (simp add: modelKey_def)
  have h3: "tensorflowModelUrl remoteModelConfig = Some ''https://models.example/model.json''"
    by (simp add: remoteModelConfig_def)
  have h4: "''https://models.example/model.json'' \<noteq> []" by simp
  have h5: "loadLayersModel ?env ''https://models.example/model.json'' = Inr 7" by simp
  have h6: "modelSave ?env 7 (''indexeddb://'' @ modelKey) = Some (Error ''QuotaExceededError'')"
    by simp
  from cacheModelOffline_failure_swallowed [OF h1 h2 h3 h4 h5 h6, of initialTFState] h5 h6
  show ?thesis by (simp add: initialTFState_def modelKey_def)
qed

section \<open>Properties of the remote classifier\<close>

lemma getProp_defined:
  "v \<noteq> JNull \<Longrightarrow> v \<noteq> JUndefined \<Longrightarrow> getProp v k = Inr (field (ownProps v) k)"
  by (cases v) simp_all


lemma field_update_other: "k' \<noteq> k \<Longrightarrow> field (AList.update k v al) k' = field al k'"
  by (simp add: field_def update_conv')

text \<open>The object that \<open>classifyImageViaAPI\<close> builds from a parsed body.\<close>

lemma apiRequest_success:
  assumes "fetch env url (authorizationHeader cfg) f = Inr resp" and "ok resp"
    and "json resp = Inr body" and "body \<noteq> JNull" and "body \<noteq> JUndefined"
  shows "apiRequest cfg env url f =
           (Inr (JObj
              (AList.update ''details''
                 (JObj (AList.update ''recommendations''
                          (getRecommendations (field (ownProps body) ''type''))
                          (ownProps (field (ownProps body) ''details''))))
                 (AList.update ''processingTime'' (JNum (elapsed env)) (ownProps body)))),
            [Fetch url (authorizationHeader cfg)])"
  using assms by (simp add: apiRequest_def getProp_defined)

lemma apiRequest_raises_iff:
  "(\<exists>e. fst (apiRequest cfg env url f) = Inl e) \<longleftrightarrow>
     (case fetch env url (authorizationHeader cfg) f of
        Inl e \<Rightarrow> True
      | Inr resp \<Rightarrow>
          \<not> ok resp
          \<or> (case json resp of Inl e \<Rightarrow> True | Inr body \<Rightarrow> body = JNull \<or> body = JUndefined))"
proof (cases "fetch env url (authorizationHeader cfg) f")
  case (Inl e)
  then show ?thesis by (simp add: apiRequest_def)
next
  case (Inr resp)
  show ?thesis
  proof (cases "ok resp")
    case False
    with Inr show ?thesis by (simp add: apiRequest_def)
  next
    case True
    show ?thesis
    proof (cases "json resp")
      case (Inl e)
      with Inr True show ?thesis by (simp add: apiRequest_def)
    next
      case b: (Inr body)
      show ?thesis
      proof (cases "body = JNull \<or> body = JUndefined")
        case True
        with Inr \<open>ok resp\<close> b show ?thesis by (auto simp: apiRequest_def)
      next
        case False
        then have "body \<noteq> JNull" "body \<noteq> JUndefined" by auto
        from apiRequest_success [OF Inr \<open>ok resp\<close> b this]
        show ?thesis using Inr \<open>ok resp\<close> b False by simp
      qed
    qed
  qed
qed

lemma classifyImageViaAPI_fst:
  assumes "apiEndpoint cfg = Some url" and "url \<noteq> []"
  shows "fst (classifyImageViaAPI cfg env st f) =
           (case fst (apiRequest cfg env url f) of
              Inr r \<Rightarrow> Inr r
            | Inl err \<Rightarrow>
                Inl (Error (case err of Error message \<Rightarrow> message
                            | NotAnError \<Rightarrow> ''Classification failed'')))"
  using assms
  by (simp add: classifyImageViaAPI_def Let_def split: prod.splits sum.splits)

lemma classifyImageViaAPI_success:
  assumes "fst (classifyImageViaAPI cfg env st f) = Inr r"
  shows "\<exists>url resp body.
           apiEndpoint cfg = Some url \<and> url \<noteq> []
           \<and> fetch env url (authorizationHeader cfg) f = Inr resp \<and> ok resp
           \<and> json resp = Inr body \<and> body \<noteq> JNull \<and> body \<noteq> JUndefined
           \<and> r = JObj
                 (AList.update ''details''
                    (JObj (AList.update ''recommendations''
                             (getRecommendations (field (ownProps body) ''type''))
                             (ownProps (field (ownProps body) ''details''))))
                    (AList.update ''processingTime'' (JNum (elapsed env)) (ownProps body)))"
proof -
  have t: "truthy (apiEndpoint cfg)"
  proof (rule ccontr)
    assume "\<not> truthy (apiEndpoint cfg)"
    then have "fst (classifyImageViaAPI cfg env st f)
                 = Inl (Error ''ML API endpoint not configured'')"
      by (simp add: classifyImageViaAPI_def)
    with assms show False by simp
  qed
  then obtain url where u: "apiEndpoint cfg = Some url" and ne: "url \<noteq> []"
    by (cases "apiEndpoint cfg") auto
  have req: "fst (apiRequest cfg env url f) = Inr r"
    using assms classifyImageViaAPI_fst [OF u ne, of env st f]
    by (auto split: sum.splits)
  then have nr: "\<not> (\<exists>e. fst (apiRequest cfg env url f) = Inl e)" by simp
  then obtain resp where fr: "fetch env url (authorizationHeader cfg) f = Inr resp"
    unfolding apiRequest_raises_iff by (cases "fetch env url (authorizationHeader cfg) f") auto
  from nr fr have okr: "ok resp" unfolding apiRequest_raises_iff by auto
  from nr fr okr obtain body where b: "json resp = Inr body"
    unfolding apiRequest_raises_iff by (cases "json resp") auto
  from nr fr okr b have nn: "body \<noteq> JNull" "body \<noteq> JUndefined"
    unfolding apiRequest_raises_iff by auto
  from apiRequest_success [OF fr okr b nn] req u ne fr okr b nn
  show ?thesis by auto
qed

text \<open>
  C8, amended: with no endpoint configured (unset or empty) \<open>classifyImageViaAPI\<close> throws
  the error "ML API endpoint not configured" at once: the trace is empty (no request
  is made) and the hook's state is untouched. When the endpoint answers with a
  non-success status it throws the error "API request failed: " followed by the status
  text. With an endpoint configured it throws in exactly these cases: the request itself
  fails, the status is not a success, the body cannot be parsed, or the body parses to
  \<open>null\<close> (\<open>undefined\<close>, which no JSON text denotes, is listed because the type of
  values has it). The source has one class of error; the two kinds of the claim are
  told apart by their messages.
\<close>

theorem classifyImageViaAPI_failures:
  "(\<not> truthy (apiEndpoint cfg) \<longrightarrow>
      classifyImageViaAPI cfg env st f =
        (Inl (Error ''ML API endpoint not configured''), st, []))
   \<and> (\<forall>url resp. apiEndpoint cfg = Some url \<and> url \<noteq> []
          \<and> fetch env url (authorizationHeader cfg) f = Inr resp \<and> \<not> ok resp \<longrightarrow>
        fst (classifyImageViaAPI cfg env st f)
          = Inl (Error (''API request failed: '' @ statusText resp)))
   \<and> (\<forall>url. apiEndpoint cfg = Some url \<and> url \<noteq> [] \<longrightarrow>
        ((\<exists>e. fst (classifyImageViaAPI cfg env st f) = Inl e) \<longleftrightarrow>
           (case fetch env url (authorizationHeader cfg) f of
              Inl e \<Rightarrow> True
            | Inr resp \<Rightarrow>
                \<not> ok resp
                \<or> (case json resp of
                      Inl e \<Rightarrow> True
                    | Inr body \<Rightarrow> body = JNull \<or> body = JUndefined))))"
proof (intro conjI allI impI)
  assume "\<not> truthy (apiEndpoint cfg)"
  then show "classifyImageViaAPI cfg env st f =
               (Inl (Error ''ML API endpoint not configured''), st, [])"
    by (simp add: classifyImageViaAPI_def)
next
  fix url resp
  assume h: "apiEndpoint cfg = Some url \<and> url \<noteq> []
             \<and> fetch env url (authorizationHeader cfg) f = Inr resp \<and> \<not> ok resp"
  then have "fst (apiRequest cfg env url f)
               = Inl (Error (''API request failed: '' @ statusText resp))"
    by (simp add: apiRequest_def)
  with h show "fst (classifyImageViaAPI cfg env st f)
                 = Inl (Error (''API request failed: '' @ statusText resp))"
    by (simp add: classifyImageViaAPI_fst)
next
  fix url
  assume h: "apiEndpoint cfg = Some url \<and> url \<noteq> []"
  then have "(\<exists>e. fst (classifyImageViaAPI cfg env st f) = Inl e)
               \<longleftrightarrow> (\<exists>e. fst (apiRequest cfg env url f) = Inl e)"
    by (auto simp: classifyImageViaAPI_fst split: sum.splits)
  then show "(\<exists>e. fst (classifyImageViaAPI cfg env st f) = Inl e) \<longleftrightarrow>
           (case fetch env url (authorizationHeader cfg) f of
              Inl e \<Rightarrow> True
            | Inr resp \<Rightarrow>
                \<not> ok resp
                \<or> (case json resp of
                      Inl e \<Rightarrow> True
                    | Inr body \<Rightarrow> body = JNull \<or> body = JUndefined))"
    by (simp only: apiRequest_raises_iff)
qed

theorem classifyImageViaAPI_failures_witness:
  "\<not> truthy (apiEndpoint noConfig)
   \<and> classifyImageViaAPI noConfig sampleEnv \<lparr> apiLoading = False, apiError = None \<rparr> sampleFile
       = (Inl (Error ''ML API endpoint not configured''),
          \<lparr> apiLoading = False, apiError = None \<rparr>, [])
   \<and> apiEndpoint apiConfig = Some ''https://api.example/classify''
   \<and> fst (classifyImageViaAPI apiConfig
            (sampleEnv\<lparr> fetch := \<lambda>url auth f.
                Inr \<lparr> ok = False, statusText = ''Service Unavailable'',
                      json = Inl (Error ''Unexpected end of JSON input'') \<rparr> \<rparr>)
            \<lparr> apiLoading = False, apiError = None \<rparr> sampleFile)
       = Inl (Error ''API request failed: Service Unavailable'')"
proof -
  let ?env = "sampleEnv\<lparr> fetch := \<lambda>url auth f.
                Inr \<lparr> ok = False, statusText = ''Service Unavailable'',
                      json = Inl (Error ''Unexpected end of JSON input'') \<rparr> \<rparr>"
  let ?st = "\<lparr> apiLoading = False, apiError = None \<rparr>"
  have n: "\<not> truthy (apiEndpoint noConfig)" by (simp add: noConfig_def)
  have u: "apiEndpoint apiConfig = Some ''https://api.example/classify''"
    by (simp add: apiConfig_def)
  have fr: "fetch ?env ''https://api.example/classify'' (authorizationHeader apiConfig) sampleFile
              = Inr \<lparr> ok = False, statusText = ''Service Unavailable'',
                      json = Inl (Error ''Unexpected end of JSON input'') \<rparr>"
    by simp
  from classifyImageViaAPI_failures [of noConfig sampleEnv ?st sampleFile] n
  have a: "classifyImageViaAPI noConfig sampleEnv ?st sampleFile
             = (Inl (Error ''ML API endpoint not configured''), ?st, [])"
    by blast
  from classifyImageViaAPI_failures [of apiConfig ?env ?st sampleFile] u fr
  have b: "fst (classifyImageViaAPI apiConfig ?env ?st sampleFile)
             = Inl (Error (''API request failed: '' @ ''Service Unavailable''))"
    by simp
  from n a u b show ?thesis by simp
qed

text \<open>
  C8, as the claim states it, fails in its last part: the remote classifier also throws
  when the endpoint is configured, the request succeeds with a success status and the
  body parses, namely when the body is the JSON value \<open>null\<close>; reading \<open>result.details\<close>
  is then a TypeError.
\<close>

theorem classifyImageViaAPI_null_body_counterexample:
  "truthy (apiEndpoint apiConfig)
   \<and> fetch (sampleEnv\<lparr> fetch := \<lambda>url auth f.
               Inr \<lparr> ok = True, statusText = ''OK'', json = Inr JNull \<rparr> \<rparr>)
        ''https://api.example/classify'' (authorizationHeader apiConfig) sampleFile
       = Inr \<lparr> ok = True, statusText = ''OK'', json = Inr JNull \<rparr>
   \<and> fst (classifyImageViaAPI apiConfig
            (sampleEnv\<lparr> fetch := \<lambda>url auth f.
               Inr \<lparr> ok = True, statusText = ''OK'', json = Inr JNull \<rparr> \<rparr>)
            \<lparr> apiLoading = False, apiError = None \<rparr> sampleFile)
       = Inl (Error ''Cannot read properties of null (reading details)'')"
  by (simp add: classifyImageViaAPI_def apiRequest_def apiConfig_def sampleEnv_def Let_def)



lemma classifyWaste_api_passthrough:
  assumes "fst (classifyImageViaAPI cfg env (apiClassification hooks) f) = Inr r"
  shows "fst (classifyWaste cfg env hooks (FromFile f)) = Inr r"
proof -
  from classifyImageViaAPI_success [OF assms]
  have t: "truthy (apiEndpoint cfg)" by auto
  obtain st ev where c: "classifyImageViaAPI cfg env (apiClassification hooks) f = (Inr r, st, ev)"
    using assms by (cases "classifyImageViaAPI cfg env (apiClassification hooks) f") auto
  show ?thesis using t c by (simp add: classifyWaste_def classifyWasteTry_def)
qed

text \<open>
  C10: whenever \<open>classifyImageViaAPI\<close> returns a result, its \<open>confidence\<close> is the one
  of the remote body, unchanged, and \<open>classifyWaste\<close> hands that very result to its
  caller; for the remote answer \<open>remoteBody\<close>, which reports confidence 100, the caller
  receives confidence 100, outside [0,99].
\<close>

theorem classifyImageViaAPI_confidence_unchanged:
  "(\<forall>r. fst (classifyImageViaAPI cfg env (apiClassification hooks) f) = Inr r \<longrightarrow>
      fst (classifyWaste cfg env hooks (FromFile f)) = Inr r
      \<and> (\<exists>url resp body props.
            apiEndpoint cfg = Some url
            \<and> fetch env url (authorizationHeader cfg) f = Inr resp \<and> ok resp
            \<and> json resp = Inr body
            \<and> r = JObj props
            \<and> field props ''confidence'' = field (ownProps body) ''confidence''))
   \<and> (\<exists>props. fst (classifyWaste apiConfig remoteEnv idleHooks (FromFile sampleFile))
                 = Inr (JObj props)
              \<and> field props ''confidence'' = JNum 100
              \<and> \<not> (100 \<le> (99::real)))"
proof (intro conjI allI impI)
  fix r
  assume a: "fst (classifyImageViaAPI cfg env (apiClassification hooks) f) = Inr r"
  show "fst (classifyWaste cfg env hooks (FromFile f)) = Inr r"
    by (rule classifyWaste_api_passthrough [OF a])
  from classifyImageViaAPI_success [OF a]
  obtain url resp body where
    u: "apiEndpoint cfg = Some url"
    and fr: "fetch env url (authorizationHeader cfg) f = Inr resp" and okr: "ok resp"
    and b: "json resp = Inr body"
    and r: "r = JObj
                 (AList.update ''details''
                    (JObj (AList.update ''recommendations''
                             (getRecommendations (field (ownProps body) ''type''))
                             (ownProps (field (ownProps body) ''details''))))
                    (AList.update ''processingTime'' (JNum (elapsed env)) (ownProps body)))"
    by blast
  let ?props = "AList.update ''details''
                    (JObj (AList.update ''recommendations''
                             (getRecommendations (field (ownProps body) ''type''))
                             (ownProps (field (ownProps body) ''details''))))
                    (AList.update ''processingTime'' (JNum (elapsed env)) (ownProps body))"
  have "field ?props ''confidence'' = field (ownProps body) ''confidence''"
    by (simp add: field_update_other)
  with u fr okr b r
  show "\<exists>url resp body props.
            apiEndpoint cfg = Some url
            \<and> fetch env url (authorizationHeader cfg) f = Inr resp \<and> ok resp
            \<and> json resp = Inr body
            \<and> r = JObj props
            \<and> field props ''confidence'' = field (ownProps body) ''confidence''"
    by blast
next
  show "\<exists>props. fst (classifyWaste apiConfig remoteEnv idleHooks (FromFile sampleFile))
                 = Inr (JObj props)
              \<and> field props ''confidence'' = JNum 100
              \<and> \<not> (100 \<le> (99::real))"
    by (simp add: classifyWaste_def classifyWasteTry_def classifyImageViaAPI_def
        apiRequest_def apiConfig_def remoteEnv_def remoteBody_def idleHooks_def Let_def
        field_def)
qed

theorem classifyImageViaAPI_confidence_unchanged_witness:
  "\<exists>props.
     fst (classifyImageViaAPI apiConfig remoteEnv (apiClassification idleHooks) sampleFile)
       = Inr (JObj props)
     \<and> fst (classifyWaste apiConfig remoteEnv idleHooks (FromFile sampleFile)) = Inr (JObj props)
     \<and> field (ownProps remoteBody) ''confidence'' = JNum 100
     \<and> field props ''confidence'' = JNum 100"
proof -
  have ex: "\<exists>r. fst (classifyImageViaAPI apiConfig remoteEnv (apiClassification idleHooks)
                       sampleFile) = Inr r"
    by (simp add: classifyImageViaAPI_def apiRequest_def apiConfig_def remoteEnv_def
        remoteBody_def Let_def)
  then obtain r where
    r: "fst (classifyImageViaAPI apiConfig remoteEnv (apiClassification idleHooks) sampleFile)
          = Inr r"
    by blast
  from classifyImageViaAPI_confidence_unchanged [of apiConfig remoteEnv idleHooks sampleFile] r
  obtain url resp body props where
    cw: "fst (classifyWaste apiConfig remoteEnv idleHooks (FromFile sampleFile)) = Inr r"
    and fr: "fetch remoteEnv url (authorizationHeader apiConfig) sampleFile = Inr resp"
    and b: "json resp = Inr body"
    and p: "r = JObj props"
    and c: "field props ''confidence'' = field (ownProps body) ''confidence''"
    by blast
  from fr b have body: "body = remoteBody" by (auto simp: remoteEnv_def)
  have rc: "field (ownProps remoteBody) ''confidence'' = JNum 100"
    by (simp add: remoteBody_def field_def)
  from r cw p c body rc show ?thesis by simp
qed

end
